theory Spec2Isabelle
  imports Main "HOL-Library.Char_ord" "HOL-Library.List_Lexorder"
begin

section \<open>Values, exceptions, the host and the output\<close>

text \<open>
  A shallow embedding of the configuration and orchestration code of fips
  (\<^verbatim>\<open>mod/config.py\<close>, \<^verbatim>\<open>mod/project.py\<close>, \<^verbatim>\<open>mod/log.py\<close>, \<^verbatim>\<open>mod/tools/clion.py\<close>).

  A Python value stored in a config or returned by a setting is a string, \<^verbatim>\<open>None\<close>, or
  some other object; of another object the code only ever uses its \<^verbatim>\<open>str()\<close> text (in
  f-strings) and its truth value (in \<^verbatim>\<open>if\<close>), so it is represented by these two.
\<close>

datatype pyval = PStr string | PNone | PObj string bool

fun py_str :: "pyval \<Rightarrow> string" where
  "py_str (PStr s) = s"
| "py_str PNone = ''None''"
| "py_str (PObj s b) = s"

fun truthy :: "pyval \<Rightarrow> bool" where
  "truthy (PStr s) = (s \<noteq> [])"
| "truthy PNone = False"
| "truthy (PObj s b) = b"

text \<open>A config is a Python dict with string keys.\<close>

type_synonym cfg = "string \<rightharpoonup> pyval"

text \<open>
  The exceptions that leave the modelled functions. \<^verbatim>\<open>sys.exit(10)\<close> raises
  \<^verbatim>\<open>SystemExit(10)\<close>; indexing a dict at a missing key raises \<^verbatim>\<open>KeyError\<close>.
\<close>

datatype exn = KeyError string | TypeError | AttributeError string | SystemExit nat

text \<open>
  The file system: the directories, and the regular files with their contents, both
  addressed by path.
\<close>

record fs =
  dirs :: "string \<Rightarrow> bool"
  files :: "string \<rightharpoonup> string"

definition isdir :: "fs \<Rightarrow> string \<Rightarrow> bool" where
  "isdir f p = dirs f p"

definition isfile :: "fs \<Rightarrow> string \<Rightarrow> bool" where
  "isfile f p = (files f p \<noteq> None)"

definition path_exists :: "fs \<Rightarrow> string \<Rightarrow> bool" where
  "path_exists f p = (isdir f p \<or> isfile f p)"

text \<open>
  \<open>under p q\<close>: the path \<open>q\<close> is \<open>p\<close> or lies below it. \<^verbatim>\<open>os.makedirs\<close> creates the
  directory with the directories above it, \<^verbatim>\<open>shutil.rmtree\<close> removes it with all below
  it, \<^verbatim>\<open>open(p, 'w')\<close> followed by writes sets the content of the file. Failures of the
  operating system itself (permissions, a file where a directory is expected) are not
  part of the model.
\<close>

definition under :: "string \<Rightarrow> string \<Rightarrow> bool" where
  "under p q = (q = p \<or> take (length p + 1) q = p @ ''/'')"

definition makedirs :: "string \<Rightarrow> fs \<Rightarrow> fs" where
  "makedirs p f = f\<lparr>dirs := (\<lambda>d. dirs f d \<or> (d \<noteq> [] \<and> under d p))\<rparr>"

definition write_file :: "string \<Rightarrow> string \<Rightarrow> fs \<Rightarrow> fs" where
  "write_file p s f = f\<lparr>files := (files f)(p \<mapsto> s)\<rparr>"

definition rmtree :: "string \<Rightarrow> fs \<Rightarrow> fs" where
  "rmtree p f = f\<lparr>dirs := (\<lambda>d. dirs f d \<and> \<not> under p d),
                   files := (\<lambda>q. if under p q then None else files f q)\<rparr>"

text \<open>
  What a run leaves behind besides the file system: the lines printed, and the calls
  made to the build-tool adapters, in order.
\<close>

datatype event =
    Print string
  | Cmake_run_gen cfg string string string "string option" "(string \<times> pyval) list"
  | Ninja_prepare string string
  | Run_build string string "string option" "pyval option" string pyval
  | Vscode_write string string cfg

record world =
  fsys :: fs
  trace :: "event list"

type_synonym 'a comp = "world \<Rightarrow> (exn + 'a) \<times> world"

definition emit :: "event \<Rightarrow> world \<Rightarrow> world" where
  "emit e w = w\<lparr>trace := trace w @ [e]\<rparr>"

section \<open>mod/log.py\<close>

definition ESC :: string where "ESC = [CHR 0x1B]"

text \<open>The single quote character of the messages.\<close>

definition sq :: string where "sq = [CHR 0x27]"

definition RED :: string where "RED = ESC @ ''[31m''"
definition GREEN :: string where "GREEN = ESC @ ''[32m''"
definition YELLOW :: string where "YELLOW = ESC @ ''[33m''"
definition DEF :: string where "DEF = ESC @ ''[39m''"

definition error :: "string \<Rightarrow> bool \<Rightarrow> unit comp" where
  "error msg fatal w =
     (let w' = emit (Print (RED @ ''[ERROR]'' @ DEF @ '' '' @ msg)) w
      in if fatal then (Inl (SystemExit 10), w') else (Inr (), w'))"

definition warn :: "string \<Rightarrow> world \<Rightarrow> world" where
  "warn msg w = emit (Print (YELLOW @ ''[WARNING]'' @ DEF @ '' '' @ msg)) w"

definition info :: "string \<Rightarrow> world \<Rightarrow> world" where
  "info msg w = emit (Print msg) w"

definition colored :: "string \<Rightarrow> string \<Rightarrow> world \<Rightarrow> world" where
  "colored color msg w = emit (Print (color @ msg @ DEF)) w"

section \<open>The collaborators that are not part of the modelled modules\<close>

text \<open>
  The result of \<^verbatim>\<open>yaml.load\<close> on a file: a dict, some other value (an empty file gives
  \<^verbatim>\<open>None\<close>, a top-level sequence a list), or a raised \<^verbatim>\<open>YAMLError\<close>. Of the exception
  the code reads the attribute \<^verbatim>\<open>message\<close>: \<open>Some v\<close> is its value, \<open>None\<close> says that
  the exception object has no such attribute.
\<close>

datatype yaml_result = YamlDict cfg | YamlOther | YamlError "pyval option"

text \<open>
  The functions of \<^verbatim>\<open>mod/util.py\<close>, \<^verbatim>\<open>mod/dep.py\<close>, \<^verbatim>\<open>mod/settings.py\<close>, of the tool
  modules and of the Python library that the code calls are parameters. Queries read
  the file system; tool runs may change it. \<^verbatim>\<open>cmake.run_gen\<close> formats a command line from
  the fields of the config and runs it; it raises where the config lacks a field that
  it formats, so its outcome is a result or an exception.
\<close>

record env =
  get_all_imports_exports :: "string \<Rightarrow> string \<Rightarrow> fs \<Rightarrow> bool \<times> (string \<times> string) list"
  get_configs_dir :: "string \<Rightarrow> fs \<Rightarrow> string option"
  get_toolchains_dir :: "string \<Rightarrow> fs \<Rightarrow> string option"
  get_project_name_from_dir :: "string \<Rightarrow> string"
  get_build_dir :: "string \<Rightarrow> string \<Rightarrow> string \<Rightarrow> string"
  get_deploy_dir :: "string \<Rightarrow> string \<Rightarrow> string \<Rightarrow> string"
  glob :: "string \<Rightarrow> fs \<Rightarrow> string list"
  yaml_load :: "string \<Rightarrow> fs \<Rightarrow> yaml_result"
  settings_get :: "string \<Rightarrow> string \<Rightarrow> fs \<Rightarrow> pyval"
  get_policy :: "string \<Rightarrow> string \<Rightarrow> fs \<Rightarrow> bool"
  get_ios_sdk_sysroot :: "fs \<Rightarrow> pyval"
  get_macos_sdk_sysroot :: "fs \<Rightarrow> pyval"
  tool_exists :: "string \<Rightarrow> string \<Rightarrow> fs \<Rightarrow> bool"
  sdk_exists :: "string \<Rightarrow> string \<Rightarrow> fs \<Rightarrow> bool"
  make_name :: string
  xcodebuild_name :: string
  fetch_imports :: "string \<Rightarrow> string \<Rightarrow> fs \<Rightarrow> exn option \<times> fs"
  ensure_valid_project_dir :: "string \<Rightarrow> fs \<Rightarrow> exn option \<times> fs"
  gather_and_write_imports :: "string \<Rightarrow> string \<Rightarrow> string \<Rightarrow> fs \<Rightarrow> exn option \<times> fs"
  cmake_run_gen :: "cfg \<Rightarrow> string \<Rightarrow> string \<Rightarrow> string \<Rightarrow> string option
                      \<Rightarrow> (string \<times> pyval) list \<Rightarrow> fs \<Rightarrow> (exn + bool) \<times> fs"
  ninja_prepare :: "string \<Rightarrow> string \<Rightarrow> fs \<Rightarrow> fs"
  run_build :: "string \<Rightarrow> string \<Rightarrow> string option \<Rightarrow> pyval option \<Rightarrow> string \<Rightarrow> pyval
                  \<Rightarrow> fs \<Rightarrow> bool \<times> fs"
  vscode_write :: "string \<Rightarrow> string \<Rightarrow> cfg \<Rightarrow> fs \<Rightarrow> fs"

text \<open>
  \<^verbatim>\<open>os.path.split\<close> and \<^verbatim>\<open>os.path.splitext\<close> (posixpath): the head loses its trailing
  slashes unless it consists of slashes only; the extension starts at the last dot of
  the last component, unless only dots precede it there.
\<close>

definition is_slash :: "char \<Rightarrow> bool" where
  "is_slash c = (c = CHR ''/'')"

definition is_dot :: "char \<Rightarrow> bool" where
  "is_dot c = (c = CHR ''.'')"

definition path_split :: "string \<Rightarrow> string \<times> string" where
  "path_split p =
     (let tail = rev (takeWhile (\<lambda>c. \<not> is_slash c) (rev p));
          head = rev (dropWhile (\<lambda>c. \<not> is_slash c) (rev p))
      in (if head \<noteq> [] \<and> \<not> list_all is_slash head
          then rev (dropWhile is_slash (rev head)) else head, tail))"

definition splitext :: "string \<Rightarrow> string \<times> string" where
  "splitext p =
     (let base = rev (takeWhile (\<lambda>c. \<not> is_slash c) (rev p));
          ext = rev (takeWhile (\<lambda>c. \<not> is_dot c) (rev base));
          stem = take (length base - length ext - 1) base
      in if list_ex is_dot base \<and> list_ex (\<lambda>c. \<not> is_dot c) stem
         then (take (length p - length ext - 1) p, CHR ''.'' # ext)
         else (p, []))"

section \<open>mod/config.py\<close>

definition native_platforms :: "string list" where
  "native_platforms = [''osx'', ''linux'', ''win32'', ''win64'']"

definition build_tools :: "string list" where
  "build_tools = [''make'', ''ninja'', ''xcodebuild'', ''cmake'', ''vscode_cmake'', ''clion'']"

definition valid_build_tool :: "pyval \<Rightarrow> bool" where
  "valid_build_tool name = (name \<in> set (map PStr build_tools))"

text \<open>A directory name returned by util is used only if it is truthy (not \<^verbatim>\<open>None\<close>, not empty).\<close>

fun truthy_dir :: "string option \<Rightarrow> string option" where
  "truthy_dir None = None"
| "truthy_dir (Some d) = (if d = [] then None else Some d)"

definition get_config_dirs :: "env \<Rightarrow> string \<Rightarrow> string \<Rightarrow> world \<Rightarrow> string list \<times> world" where
  "get_config_dirs e fips_dir proj_dir w =
     (if fips_dir \<noteq> proj_dir then
        (case get_all_imports_exports e fips_dir proj_dir (fsys w) of
           (success, result) \<Rightarrow>
             if success
             then (List.map_filter (\<lambda>(dep_proj_name, dep_proj_dir).
                      truthy_dir (get_configs_dir e dep_proj_dir (fsys w))) result
                   @ [fips_dir @ ''/configs''], w)
             else ([fips_dir @ ''/configs''],
                   warn (''missing import directories, please run '' @ sq @ ''fips fetch'' @ sq) w))
      else ([fips_dir @ ''/configs''], w))"

text \<open>The config name of a path: the file name without its extension.\<close>

definition name_of_path :: "string \<Rightarrow> string" where
  "name_of_path path = fst (splitext (snd (path_split path)))"

text \<open>An \<^verbatim>\<open>OrderedDict\<close>: assigning to an existing key keeps the key's position.\<close>

fun odict_set :: "'k \<Rightarrow> 'v \<Rightarrow> ('k \<times> 'v) list \<Rightarrow> ('k \<times> 'v) list" where
  "odict_set k v [] = [(k, v)]"
| "odict_set k v (p # ps) = (if fst p = k then (k, v) # ps else p # odict_set k v ps)"

fun list_loop :: "env \<Rightarrow> fs \<Rightarrow> string list \<Rightarrow> (string \<times> string list) list
                    \<Rightarrow> (string \<times> string list) list" where
  "list_loop e f [] res = res"
| "list_loop e f (curDir # ds) res =
     list_loop e f ds
       (odict_set curDir (sort (map name_of_path (glob e (curDir @ ''/*.yml'') f))) res)"

definition list_configs :: "env \<Rightarrow> string \<Rightarrow> string \<Rightarrow> string \<Rightarrow> world
                              \<Rightarrow> (string \<times> string list) list \<times> world" where
  "list_configs e fips_dir proj_dir pattern w =
     (case get_config_dirs e fips_dir proj_dir w of
        (ds, w') \<Rightarrow> (list_loop e (fsys w') ds [], w'))"

text \<open>The loader's patches of a parsed dict: path, folder, name, and the defaults.\<close>

definition set_default :: "string \<Rightarrow> pyval \<Rightarrow> cfg \<Rightarrow> cfg" where
  "set_default k v c = (if c k = None then c(k \<mapsto> v) else c)"

definition patch_cfg :: "string \<Rightarrow> cfg \<Rightarrow> cfg" where
  "patch_cfg path c0 =
     (let c1 = c0(''path'' \<mapsto> PStr path);
          c2 = c1(''folder'' \<mapsto> PStr (fst (path_split path)));
          c3 = c2(''name'' \<mapsto> PStr (name_of_path path));
          c4 = set_default ''generator'' (PStr ''Default'') c3;
          c5 = set_default ''generator-platform'' PNone c4;
          c6 = set_default ''generator-toolset'' PNone c5
      in set_default ''defines'' PNone c6)"

text \<open>
  The inner \<^verbatim>\<open>for c in configs\<close> with its \<^verbatim>\<open>break\<close>: is there a config of that name
  already? Both sides are indexed at \<^verbatim>\<open>'name'\<close>.
\<close>

fun name_taken :: "cfg list \<Rightarrow> pyval \<Rightarrow> exn + bool" where
  "name_taken [] n = Inr False"
| "name_taken (c # cs) n =
     (case c ''name'' of
        None \<Rightarrow> Inl (KeyError ''name'')
      | Some v \<Rightarrow> if v = n then Inr True else name_taken cs n)"

text \<open>
  One file. A \<^verbatim>\<open>YAMLError\<close> is caught and handed to \<^verbatim>\<open>log.error\<close>, whose second
  parameter \<^verbatim>\<open>fatal\<close> receives \<^verbatim>\<open>e.message\<close>; a parsed value that is no dict fails at
  the first item assignment, which nothing catches.
\<close>

definition load_path :: "env \<Rightarrow> string \<Rightarrow> cfg list \<Rightarrow> cfg list comp" where
  "load_path e path configs w =
     (case yaml_load e path (fsys w) of
        YamlError None \<Rightarrow> (Inl (AttributeError ''message''), w)
      | YamlError (Some m) \<Rightarrow>
          (case error ''YML parse error: {}'' (truthy m) w of
             (Inl x, w') \<Rightarrow> (Inl x, w')
           | (Inr u, w') \<Rightarrow> (Inr configs, w'))
      | YamlOther \<Rightarrow> (Inl TypeError, w)
      | YamlDict c0 \<Rightarrow>
          (let c = patch_cfg path c0 in
           case name_taken configs (PStr (name_of_path path)) of
             Inl x \<Rightarrow> (Inl x, w)
           | Inr True \<Rightarrow> (Inr configs, w)
           | Inr False \<Rightarrow> (Inr (configs @ [c]), w)))"

fun load_paths :: "env \<Rightarrow> string list \<Rightarrow> cfg list \<Rightarrow> cfg list comp" where
  "load_paths e [] configs w = (Inr configs, w)"
| "load_paths e (path # paths) configs w =
     (case load_path e path configs w of
        (Inl x, w') \<Rightarrow> (Inl x, w')
      | (Inr configs', w') \<Rightarrow> load_paths e paths configs' w')"

fun load_dirs :: "env \<Rightarrow> string \<Rightarrow> string list \<Rightarrow> cfg list \<Rightarrow> cfg list comp" where
  "load_dirs e pattern [] configs w = (Inr configs, w)"
| "load_dirs e pattern (curDir # ds) configs w =
     (case load_paths e (glob e (curDir @ ''/'' @ pattern @ ''.yml'') (fsys w)) configs w of
        (Inl x, w') \<Rightarrow> (Inl x, w')
      | (Inr configs', w') \<Rightarrow> load_dirs e pattern ds configs' w')"

definition load :: "env \<Rightarrow> string \<Rightarrow> string \<Rightarrow> string \<Rightarrow> cfg list comp" where
  "load e fips_dir proj_dir pattern w =
     (case get_config_dirs e fips_dir proj_dir w of
        (ds, w') \<Rightarrow> load_dirs e pattern ds [] w')"

text \<open>Sequencing of computations that may raise; \<^verbatim>\<open>d[k]\<close> on a dict.\<close>

definition and_then :: "'a comp \<Rightarrow> ('a \<Rightarrow> 'b comp) \<Rightarrow> 'b comp" where
  "and_then m k w = (case m w of (Inl x, w') \<Rightarrow> (Inl x, w') | (Inr a, w') \<Rightarrow> k a w')"

definition ret :: "'a \<Rightarrow> 'a comp" where
  "ret a w = (Inr a, w)"

definition act :: "(world \<Rightarrow> world) \<Rightarrow> unit comp" where
  "act f w = (Inr (), f w)"

definition getitem :: "cfg \<Rightarrow> string \<Rightarrow> pyval comp" where
  "getitem c k w = (case c k of None \<Rightarrow> (Inl (KeyError k), w) | Some v \<Rightarrow> (Inr v, w))"

definition check_build_tool :: "env \<Rightarrow> string \<Rightarrow> pyval \<Rightarrow> fs \<Rightarrow> bool" where
  "check_build_tool e fips_dir tool_name f =
     (if tool_name = PStr ''cmake'' then tool_exists e ''cmake'' fips_dir f
      else if tool_name = PStr ''make'' then tool_exists e ''make'' fips_dir f
      else if tool_name = PStr ''ninja'' then tool_exists e ''ninja'' fips_dir f
      else if tool_name = PStr ''xcodebuild'' then tool_exists e ''xcodebuild'' fips_dir f
      else if tool_name = PStr ''vscode_cmake'' then tool_exists e ''vscode'' fips_dir f
      else if tool_name = PStr ''clion'' then tool_exists e ''clion'' fips_dir f
      else False)"

definition check_sdk :: "env \<Rightarrow> string \<Rightarrow> pyval \<Rightarrow> fs \<Rightarrow> bool" where
  "check_sdk e fips_dir platform_name f =
     (if platform_name = PStr ''emscripten'' then sdk_exists e ''emscripten'' fips_dir f
      else if platform_name = PStr ''android'' then sdk_exists e ''android'' fips_dir f
      else True)"

text \<open>
  The loop of \<^verbatim>\<open>get_toolchain\<close> over the imported projects. It is left only by
  \<^verbatim>\<open>return\<close>, so its \<^verbatim>\<open>else\<close> branch, the look into the fips directory, runs whenever
  the loop ends.
\<close>

fun toolchain_in_imports :: "env \<Rightarrow> fs \<Rightarrow> string \<Rightarrow> (string \<times> string) list \<Rightarrow> string option" where
  "toolchain_in_imports e f toolchain [] = None"
| "toolchain_in_imports e f toolchain ((imported_proj_name, imported_proj_dir) # rest) =
     (case truthy_dir (get_toolchains_dir e imported_proj_dir f) of
        None \<Rightarrow> toolchain_in_imports e f toolchain rest
      | Some toolchain_dir \<Rightarrow>
          if isfile f (toolchain_dir @ ''/'' @ toolchain)
          then Some (toolchain_dir @ ''/'' @ toolchain)
          else toolchain_in_imports e f toolchain rest)"

definition find_toolchain :: "env \<Rightarrow> string \<Rightarrow> string \<Rightarrow> string \<Rightarrow> fs \<Rightarrow> string option" where
  "find_toolchain e fips_dir proj_dir toolchain f =
     (let toolchain_path = (case truthy_dir (get_toolchains_dir e proj_dir f) of
                              None \<Rightarrow> None
                            | Some toolchain_dir \<Rightarrow> Some (toolchain_dir @ ''/'' @ toolchain))
      in if toolchain_path \<noteq> None \<and> isfile f (the toolchain_path) then toolchain_path
         else (case toolchain_in_imports e f toolchain
                      (snd (get_all_imports_exports e fips_dir proj_dir f)) of
                 Some p \<Rightarrow> Some p
               | None \<Rightarrow>
                   if isfile f (fips_dir @ ''/cmake-toolchains/'' @ toolchain)
                   then Some (fips_dir @ ''/cmake-toolchains/'' @ toolchain)
                   else None))"

definition toolchain_name :: "cfg \<Rightarrow> string comp" where
  "toolchain_name c =
     (case c ''cmake-toolchain'' of
        Some v \<Rightarrow> ret (py_str v)
      | None \<Rightarrow> and_then (getitem c ''platform'') (\<lambda>plat. ret (py_str plat @ ''.toolchain.cmake'')))"

definition get_toolchain :: "env \<Rightarrow> string \<Rightarrow> string \<Rightarrow> cfg \<Rightarrow> string option comp" where
  "get_toolchain e fips_dir proj_dir c =
     (case c ''platform'' of
        Some plat \<Rightarrow>
          if plat \<in> set (map PStr native_platforms) then ret None
          else and_then (toolchain_name c) (\<lambda>toolchain w.
                 (Inr (find_toolchain e fips_dir proj_dir toolchain (fsys w)), w))
      | None \<Rightarrow>
          and_then (error (''config has no '' @ sq @ ''platform'' @ sq @ '' attribute!'' @ sq) True)
            (\<lambda>u. and_then (toolchain_name c) (\<lambda>toolchain w.
                 (Inr (find_toolchain e fips_dir proj_dir toolchain (fsys w)), w))))"

text \<open>
  \<^verbatim>\<open>check_config_valid\<close>: the loop over the required fields, then the four checks, each
  indexing the config directly.
\<close>

definition required_fields :: "string list" where
  "required_fields = [''name'', ''folder'', ''platform'', ''generator'', ''build_tool'', ''build_type'']"

fun check_fields :: "cfg \<Rightarrow> string list \<Rightarrow> bool \<times> string list \<Rightarrow> (bool \<times> string list) comp" where
  "check_fields c [] (valid, messages) = ret (valid, messages)"
| "check_fields c (field # rest) (valid, messages) =
     (if c field = None
      then and_then (getitem c ''path'') (\<lambda>path.
             check_fields c rest
               (False, messages @ [''missing field '' @ sq @ field @ sq @ '' in '' @ sq @ py_str path @ sq]))
      else check_fields c rest (valid, messages))"

definition check_platform_sdk :: "env \<Rightarrow> string \<Rightarrow> cfg \<Rightarrow> bool \<times> string list \<Rightarrow> (bool \<times> string list) comp" where
  "check_platform_sdk e fips_dir c vm =
     and_then (getitem c ''platform'') (\<lambda>plat w.
       if \<not> check_sdk e fips_dir plat (fsys w)
       then (Inr (False, snd vm @ [''platform sdk for '' @ sq @ py_str plat @ sq
                    @ '' not installed (see '' @ sq @ ''./fips help setup'' @ sq @ '')'']), w)
       else (Inr vm, w))"

definition check_tool_name :: "cfg \<Rightarrow> bool \<times> string list \<Rightarrow> (bool \<times> string list) comp" where
  "check_tool_name c vm =
     and_then (getitem c ''build_tool'') (\<lambda>tool.
       if \<not> valid_build_tool tool
       then and_then (getitem c ''path'') (\<lambda>path.
              ret (False, snd vm @ [''invalid build_tool name '' @ sq @ py_str tool @ sq
                     @ '' in '' @ sq @ py_str path @ sq]))
       else ret vm)"

definition check_tool_found :: "env \<Rightarrow> string \<Rightarrow> cfg \<Rightarrow> bool \<times> string list \<Rightarrow> (bool \<times> string list) comp" where
  "check_tool_found e fips_dir c vm =
     and_then (getitem c ''build_tool'') (\<lambda>tool w.
       if \<not> check_build_tool e fips_dir tool (fsys w)
       then (Inr (False, snd vm @ [''build tool '' @ sq @ py_str tool @ sq @ '' not found'']), w)
       else (Inr vm, w))"

definition check_toolchain :: "env \<Rightarrow> string \<Rightarrow> string \<Rightarrow> cfg \<Rightarrow> bool \<times> string list \<Rightarrow> (bool \<times> string list) comp" where
  "check_toolchain e fips_dir proj_dir c vm =
     and_then (getitem c ''platform'') (\<lambda>plat.
       if plat \<notin> set (map PStr native_platforms)
       then and_then (get_toolchain e fips_dir proj_dir c) (\<lambda>toolchain_path.
              if toolchain_path = None \<or> toolchain_path = Some []
              then and_then (getitem c ''name'') (\<lambda>name.
                     ret (False, snd vm @ [''toolchain file not found for config '' @ sq
                            @ py_str name @ sq @ ''!'']))
              else ret vm)
       else ret vm)"

fun print_messages :: "string list \<Rightarrow> unit comp" where
  "print_messages [] = ret ()"
| "print_messages (msg # rest) = and_then (error msg False) (\<lambda>u. print_messages rest)"

definition check_config_valid :: "env \<Rightarrow> string \<Rightarrow> string \<Rightarrow> cfg \<Rightarrow> bool \<Rightarrow> (bool \<times> string list) comp" where
  "check_config_valid e fips_dir proj_dir c print_errors =
     and_then (check_fields c required_fields (True, [])) (\<lambda>vm1.
     and_then (check_platform_sdk e fips_dir c vm1) (\<lambda>vm2.
     and_then (check_tool_name c vm2) (\<lambda>vm3.
     and_then (check_tool_found e fips_dir c vm3) (\<lambda>vm4.
     and_then (check_toolchain e fips_dir proj_dir c vm4) (\<lambda>vm5.
     and_then (if print_errors then print_messages (snd vm5) else ret ()) (\<lambda>u.
     ret vm5))))))"

section \<open>mod/tools/clion.py\<close>

definition dq :: string where "dq = [CHR 0x22]"
definition nl :: string where "nl = [CHR 0x0A]"

definition iml_text :: string where
  "iml_text =
     ''<?xml version='' @ dq @ ''1.0'' @ dq @ '' encoding='' @ dq @ ''UTF-8'' @ dq @
     ''?>'' @ nl @ ''<module classpath='' @ dq @ ''CMake'' @ dq @ '' type='' @ dq @
     ''CPP_MODULE'' @ dq @ '' version='' @ dq @ ''4'' @ dq @ '' />''"

definition misc_text :: string where
  "misc_text =
     ''<?xml version='' @ dq @ ''1.0'' @ dq @ '' encoding='' @ dq @ ''UTF-8'' @ dq @
     ''?>'' @ nl @ ''<project version='' @ dq @ ''4'' @ dq @ ''>'' @ nl @
     ''  <component name='' @ dq @ ''CMakeWorkspace'' @ dq @ '' IGNORE_OUTSIDE_FILES='' @
     dq @ ''true'' @ dq @ '' PROJECT_DIR='' @ dq @ ''$PROJECT_DIR$'' @ dq @ '' />'' @ nl @
     ''</project>''"

definition modules_text :: "string \<Rightarrow> string" where
  "modules_text proj_name =
     ''<?xml version='' @ dq @ ''1.0'' @ dq @ '' encoding='' @ dq @ ''UTF-8'' @ dq @
     ''?>'' @ nl @ ''<project version='' @ dq @ ''4'' @ dq @ ''>'' @ nl @
     ''  <component name='' @ dq @ ''ProjectModuleManager'' @ dq @ ''>'' @ nl @
     ''    <modules>'' @ nl @ ''      <module fileurl='' @ dq @
     ''file://$PROJECT_DIR$/.idea/''
     @ proj_name @
     ''.iml'' @ dq @ '' filepath='' @ dq @ ''$PROJECT_DIR$/.idea/''
     @ proj_name @
     ''.iml'' @ dq @ '' />'' @ nl @ ''    </modules>'' @ nl @ ''  </component>'' @ nl @
     ''</project>''"

definition workspace_text :: "string \<Rightarrow> string \<Rightarrow> string" where
  "workspace_text gen_options gen_dir =
     ''<?xml version='' @ dq @ ''1.0'' @ dq @ '' encoding='' @ dq @ ''UTF-8'' @ dq @
     ''?>'' @ nl @ ''<project version='' @ dq @ ''4'' @ dq @ ''>'' @ nl @
     ''  <component name='' @ dq @ ''CMakeSettings'' @ dq @ ''>'' @ nl @
     ''    <configurations>'' @ nl @ ''      <configuration PROFILE_NAME='' @ dq @
     ''Debug'' @ dq @ '' CONFIG_NAME='' @ dq @ ''Debug'' @ dq @ '' GENERATION_OPTIONS='' @
     dq
     @ gen_options @
     dq @ '' GENERATION_DIR='' @ dq
     @ gen_dir @
     dq @ '' />'' @ nl @ ''    </configurations>'' @ nl @ ''  </component>'' @ nl @
     ''</project>''"

text \<open>
  \<^verbatim>\<open>write_clion_module_files\<close> looks for the \<^verbatim>\<open>.iml\<close> file only, and writes all three
  files when that one is missing.
\<close>

definition write_clion_module_files :: "env \<Rightarrow> string \<Rightarrow> string \<Rightarrow> cfg \<Rightarrow> fs \<Rightarrow> fs" where
  "write_clion_module_files e fips_dir proj_dir c f =
     (let proj_name = get_project_name_from_dir e proj_dir;
          iml_path = proj_dir @ ''/.idea/'' @ proj_name @ ''.iml''
      in if path_exists f iml_path then f
         else write_file (proj_dir @ ''/.idea/modules.xml'') (modules_text proj_name)
                (write_file (proj_dir @ ''/.idea/misc.xml'') misc_text
                  (write_file iml_path iml_text f)))"

definition write_clion_workspace_file :: "env \<Rightarrow> string \<Rightarrow> string \<Rightarrow> cfg \<Rightarrow> unit comp" where
  "write_clion_workspace_file e fips_dir proj_dir c =
     and_then (getitem c ''name'') (\<lambda>name w.
       let proj_name = get_project_name_from_dir e proj_dir;
           gen_options = ''-DFIPS_CONFIG='' @ py_str name;
           gen_dir = ''$PROJECT_DIR$/../fips-build/'' @ proj_name @ ''/'' @ py_str name;
           ws_path = proj_dir @ ''/.idea/workspace.xml''
       in if path_exists (fsys w) ws_path then (Inr (), w)
          else (Inr (), w\<lparr>fsys := write_file ws_path (workspace_text gen_options gen_dir) (fsys w)\<rparr>))"

definition write_workspace_settings :: "env \<Rightarrow> string \<Rightarrow> string \<Rightarrow> cfg \<Rightarrow> unit comp" where
  "write_workspace_settings e fips_dir proj_dir c =
     and_then (act (info ''=== writing JetBrains CLion config files...'')) (\<lambda>u.
     and_then (act (\<lambda>w. if \<not> isdir (fsys w) (proj_dir @ ''/.idea'')
                         then w\<lparr>fsys := makedirs (proj_dir @ ''/.idea'') (fsys w)\<rparr> else w)) (\<lambda>u.
     and_then (act (\<lambda>w. w\<lparr>fsys := write_clion_module_files e fips_dir proj_dir c (fsys w)\<rparr>)) (\<lambda>u.
     write_clion_workspace_file e fips_dir proj_dir c)))"

section \<open>mod/project.py\<close>

text \<open>Decimal text of an integer, as an f-string prints it.\<close>

function show_nat :: "nat \<Rightarrow> string" where
  "show_nat n = (if n < 10 then [char_of (48 + n)]
                 else show_nat (n div 10) @ [char_of (48 + n mod 10)])"
  by pat_completeness auto
termination
  by (relation "measure id") auto

declare show_nat.simps [simp del]

definition show_int :: "int \<Rightarrow> string" where
  "show_int i = (if i < 0 then ''-'' @ show_nat (nat (- i)) else show_nat (nat i))"

text \<open>
  Calls of collaborators: one that may raise, a tool run that is recorded before it
  starts, and a tool run that always returns.
\<close>

definition ext :: "(fs \<Rightarrow> exn option \<times> fs) \<Rightarrow> unit comp" where
  "ext g w = (case g (fsys w) of
                (None, f') \<Rightarrow> (Inr (), w\<lparr>fsys := f'\<rparr>)
              | (Some x, f') \<Rightarrow> (Inl x, w\<lparr>fsys := f'\<rparr>))"

definition tool :: "event \<Rightarrow> (fs \<Rightarrow> (exn + 'a) \<times> fs) \<Rightarrow> 'a comp" where
  "tool ev g w = (case g (fsys (emit ev w)) of (r, f') \<Rightarrow> (r, (emit ev w)\<lparr>fsys := f'\<rparr>))"

definition total :: "(fs \<Rightarrow> 'a \<times> fs) \<Rightarrow> fs \<Rightarrow> (exn + 'a) \<times> fs" where
  "total g f = (case g f of (r, f') \<Rightarrow> (Inr r, f'))"

text \<open>The dict \<^verbatim>\<open>defines\<close> that \<^verbatim>\<open>gen_project\<close> hands to cmake.\<close>

definition gen_defines :: "env \<Rightarrow> string \<Rightarrow> pyval \<Rightarrow> pyval \<Rightarrow> fs \<Rightarrow> (string \<times> pyval) list" where
  "gen_defines e proj_dir generator plat f =
     (let d1 = [(''FIPS_USE_CCACHE'',
                 PStr (if truthy (settings_get e proj_dir ''ccache'' f) then ''ON'' else ''OFF''))];
          d2 = odict_set ''FIPS_AUTO_IMPORT''
                 (PStr (if get_policy e proj_dir ''no_auto_import'' f then ''OFF'' else ''ON'')) d1;
          d3 = (if generator \<in> set [PStr ''Ninja'', PStr ''Unix Makefiles'']
                then odict_set ''CMAKE_EXPORT_COMPILE_COMMANDS'' (PStr ''ON'') d2 else d2);
          d4 = (if plat = PStr ''ios''
                then (let d = odict_set ''CMAKE_OSX_SYSROOT'' (get_ios_sdk_sysroot e f) d3;
                          ios_team_id = settings_get e proj_dir ''iosteam'' f
                      in if truthy ios_team_id then odict_set ''FIPS_IOS_TEAMID'' ios_team_id d else d)
                else d3)
      in if plat = PStr ''osx''
         then odict_set ''CMAKE_OSX_SYSROOT'' (get_macos_sdk_sysroot e f) d4 else d4)"

text \<open>
  \<^verbatim>\<open>gen_project\<close> after the freshness decision: messages, toolchain, cmake, and the
  IDE writers, which follow the cmake run whatever it returned.
\<close>

definition run_generate :: "env \<Rightarrow> string \<Rightarrow> string \<Rightarrow> cfg \<Rightarrow> string \<Rightarrow> (string \<times> pyval) list \<Rightarrow> bool comp" where
  "run_generate e fips_dir proj_dir c build_dir defines =
     and_then (getitem c ''name'') (\<lambda>name.
     and_then (act (colored YELLOW (''=== generating: '' @ py_str name))) (\<lambda>u.
     and_then (getitem c ''path'') (\<lambda>path.
     and_then (act (info (''config file: '' @ py_str path))) (\<lambda>u.
     and_then (get_toolchain e fips_dir proj_dir c) (\<lambda>toolchain_path.
     and_then (if toolchain_path \<noteq> None \<and> toolchain_path \<noteq> Some []
               then act (info (''Using Toolchain File: '' @ the toolchain_path)) else ret ()) (\<lambda>u.
     and_then (getitem c ''build_tool'') (\<lambda>build_tool.
     and_then (if build_tool = PStr ''ninja''
               then tool (Ninja_prepare fips_dir build_dir)
                      (total (\<lambda>f. ((), ninja_prepare e fips_dir build_dir f)))
               else ret ()) (\<lambda>u.
     and_then (tool (Cmake_run_gen c fips_dir proj_dir build_dir toolchain_path defines)
                 (cmake_run_gen e c fips_dir proj_dir build_dir toolchain_path defines)) (\<lambda>cmake_result.
     and_then (if build_tool = PStr ''vscode_cmake''
               then tool (Vscode_write fips_dir proj_dir c)
                      (total (\<lambda>f. ((), vscode_write e fips_dir proj_dir c f)))
               else ret ()) (\<lambda>u.
     and_then (if build_tool = PStr ''clion''
               then write_workspace_settings e fips_dir proj_dir c else ret ()) (\<lambda>u.
     ret cmake_result)))))))))))"

definition gen_project :: "env \<Rightarrow> string \<Rightarrow> string \<Rightarrow> cfg \<Rightarrow> bool \<Rightarrow> bool comp" where
  "gen_project e fips_dir proj_dir c force =
     and_then (getitem c ''name'') (\<lambda>name.
     and_then (getitem c ''generator'') (\<lambda>generator.
     and_then (getitem c ''platform'') (\<lambda>plat w0.
       let proj_name = get_project_name_from_dir e proj_dir;
           build_dir = get_build_dir e fips_dir proj_name (py_str name);
           defines = gen_defines e proj_dir generator plat (fsys w0);
           w1 = (if \<not> isdir (fsys w0) build_dir
                 then w0\<lparr>fsys := makedirs build_dir (fsys w0)\<rparr> else w0);
           do_it = (if \<not> isfile (fsys w1) (build_dir @ ''/CMakeCache.txt'') then True else force)
       in if \<not> do_it then (Inr True, w1)
          else run_generate e fips_dir proj_dir c build_dir defines w1)))"

text \<open>
  \<^verbatim>\<open>build\<close>: the choice and run of the build tool, the body of the loop for one config,
  the loop, and the function with its tally. Every \<^verbatim>\<open>log.error\<close> here is called without
  a second argument, so with \<^verbatim>\<open>fatal=True\<close>.
\<close>

definition run_build_tool :: "env \<Rightarrow> string \<Rightarrow> string \<Rightarrow> string option \<Rightarrow> cfg \<Rightarrow> bool comp" where
  "run_build_tool e fips_dir proj_dir target c =
     and_then (getitem c ''name'') (\<lambda>name.
     and_then (getitem c ''build_tool'') (\<lambda>build_tool w.
       let proj_name = get_project_name_from_dir e proj_dir;
           build_dir = get_build_dir e fips_dir proj_name (py_str name);
           num_jobs = settings_get e proj_dir ''jobs'' (fsys w)
       in if build_tool = PStr (make_name e)
          then tool (Run_build ''make'' fips_dir target None build_dir num_jobs)
                 (total (run_build e ''make'' fips_dir target None build_dir num_jobs)) w
          else if build_tool = PStr ''ninja''
          then tool (Run_build ''ninja'' fips_dir target None build_dir num_jobs)
                 (total (run_build e ''ninja'' fips_dir target None build_dir num_jobs)) w
          else if build_tool = PStr (xcodebuild_name e)
          then and_then (getitem c ''build_type'') (\<lambda>build_type.
                 tool (Run_build ''xcodebuild'' fips_dir target (Some build_type) build_dir num_jobs)
                   (total (run_build e ''xcodebuild'' fips_dir target (Some build_type) build_dir num_jobs))) w
          else and_then (getitem c ''build_type'') (\<lambda>build_type.
                 tool (Run_build ''cmake'' fips_dir target (Some build_type) build_dir num_jobs)
                   (total (run_build e ''cmake'' fips_dir target (Some build_type) build_dir num_jobs))) w))"

definition build_config :: "env \<Rightarrow> string \<Rightarrow> string \<Rightarrow> string option \<Rightarrow> cfg \<Rightarrow> bool comp" where
  "build_config e fips_dir proj_dir target c =
     and_then (check_config_valid e fips_dir proj_dir c True) (\<lambda>vm.
       if fst vm
       then and_then (getitem c ''name'') (\<lambda>name.
            and_then (act (colored YELLOW (''=== building: '' @ py_str name))) (\<lambda>u.
            and_then (gen_project e fips_dir proj_dir c False) (\<lambda>generated.
            and_then (if \<not> generated
                      then error (''Failed to generate '' @ sq @ py_str name @ sq @ '' of project ''
                                    @ sq @ get_project_name_from_dir e proj_dir @ sq) True
                      else ret ()) (\<lambda>u.
            and_then (run_build_tool e fips_dir proj_dir target c) (\<lambda>result.
              if result then ret True
              else and_then (error (''Failed to build config '' @ sq @ py_str name @ sq
                                      @ '' of project '' @ sq
                                      @ get_project_name_from_dir e proj_dir @ sq) True)
                     (\<lambda>u. ret False))))))
       else and_then (getitem c ''name'') (\<lambda>name.
            and_then (error (''Config '' @ sq @ py_str name @ sq
                               @ '' not valid in this environment'') True)
              (\<lambda>u. ret False)))"

fun build_loop :: "env \<Rightarrow> string \<Rightarrow> string \<Rightarrow> string option \<Rightarrow> cfg list \<Rightarrow> nat \<Rightarrow> nat comp" where
  "build_loop e fips_dir proj_dir target [] num_valid_configs = ret num_valid_configs"
| "build_loop e fips_dir proj_dir target (c # cs) num_valid_configs =
     and_then (build_config e fips_dir proj_dir target c) (\<lambda>counted.
       build_loop e fips_dir proj_dir target cs
         (if counted then num_valid_configs + 1 else num_valid_configs))"

definition build :: "env \<Rightarrow> string \<Rightarrow> string \<Rightarrow> string \<Rightarrow> string option \<Rightarrow> bool comp" where
  "build e fips_dir proj_dir cfg_name target =
     and_then (ext (fetch_imports e fips_dir proj_dir)) (\<lambda>u.
     and_then (ext (ensure_valid_project_dir e proj_dir)) (\<lambda>u.
     and_then (ext (gather_and_write_imports e fips_dir proj_dir cfg_name)) (\<lambda>u.
     and_then (load e fips_dir proj_dir cfg_name) (\<lambda>configs.
     and_then (if configs \<noteq> []
               then build_loop e fips_dir proj_dir target configs 0
               else and_then (error (''No valid configs found for '' @ sq @ cfg_name @ sq) True)
                      (\<lambda>u. ret 0)) (\<lambda>num_valid_configs.
       if num_valid_configs \<noteq> length configs
       then and_then (error (show_int (int (length configs) - int num_valid_configs) @ '' out of ''
                               @ show_nat (length configs) @ '' configs failed!'') True)
              (\<lambda>u. ret False)
       else and_then (act (colored GREEN (show_nat num_valid_configs @ '' configs built'')))
              (\<lambda>u. ret True))))))"

text \<open>\<^verbatim>\<open>clean\<close>: it has no \<^verbatim>\<open>return\<close> statement, so its value is \<^verbatim>\<open>None\<close>.\<close>

fun clean_loop :: "env \<Rightarrow> string \<Rightarrow> string \<Rightarrow> cfg list \<Rightarrow> nat \<Rightarrow> nat comp" where
  "clean_loop e fips_dir proj_name [] num_cleaned_configs = ret num_cleaned_configs"
| "clean_loop e fips_dir proj_name (c # cs) num_cleaned_configs =
     and_then (getitem c ''name'') (\<lambda>name w.
       let build_dir = get_build_dir e fips_dir proj_name (py_str name);
           build_dir_exists = isdir (fsys w) build_dir;
           deploy_dir = get_deploy_dir e fips_dir proj_name (py_str name);
           deploy_dir_exists = isdir (fsys w) deploy_dir;
           w1 = (if build_dir_exists \<or> deploy_dir_exists
                 then colored YELLOW (''=== clean: '' @ py_str name) w else w);
           n1 = (if build_dir_exists \<or> deploy_dir_exists
                 then num_cleaned_configs + 1 else num_cleaned_configs);
           w2 = (if build_dir_exists
                 then info (''  deleted '' @ sq @ build_dir @ sq) (w1\<lparr>fsys := rmtree build_dir (fsys w1)\<rparr>)
                 else w1);
           w3 = (if deploy_dir_exists
                 then info (''  deleted '' @ sq @ deploy_dir @ sq) (w2\<lparr>fsys := rmtree deploy_dir (fsys w2)\<rparr>)
                 else w2)
       in clean_loop e fips_dir proj_name cs n1 w3)"

definition clean :: "env \<Rightarrow> string \<Rightarrow> string \<Rightarrow> string \<Rightarrow> unit comp" where
  "clean e fips_dir proj_dir cfg_name =
     and_then (load e fips_dir proj_dir cfg_name) (\<lambda>configs.
       if configs \<noteq> []
       then and_then (clean_loop e fips_dir (get_project_name_from_dir e proj_dir) configs 0)
              (\<lambda>num_cleaned_configs.
                 if num_cleaned_configs = 0
                 then act (colored YELLOW (''=== clean: nothing to clean for '' @ cfg_name))
                 else ret ())
       else error (''No valid configs found for '' @ sq @ cfg_name @ sq) True)"

section \<open>Reference definitions and sample inputs\<close>

text \<open>
  The files that \<^verbatim>\<open>load\<close> looks at, in the order in which it does: layer by layer, and
  inside a layer in the order of \<^verbatim>\<open>glob\<close>.
\<close>

definition matched_paths :: "env \<Rightarrow> string \<Rightarrow> string list \<Rightarrow> fs \<Rightarrow> string list" where
  "matched_paths e pattern ds f = concat (map (\<lambda>curDir. glob e (curDir @ ''/'' @ pattern @ ''.yml'') f) ds)"

text \<open>The config that the loader makes of one file that parses to a dict.\<close>

definition is_dict :: "yaml_result \<Rightarrow> bool" where
  "is_dict r = (case r of YamlDict c \<Rightarrow> True | _ \<Rightarrow> False)"

definition cfg_of_file :: "env \<Rightarrow> fs \<Rightarrow> string \<Rightarrow> cfg" where
  "cfg_of_file e f path = patch_cfg path (case yaml_load e path f of YamlDict c \<Rightarrow> c | _ \<Rightarrow> Map.empty)"

text \<open>
  Shadowing, as the specification words it: of the files that give the same name the
  first one stays and the later ones are dropped.
\<close>

function shadow :: "string list \<Rightarrow> string list" where
  "shadow [] = []"
| "shadow (p # ps) = p # shadow (filter (\<lambda>q. name_of_path q \<noteq> name_of_path p) ps)"
  by pat_completeness auto
termination
  by (relation "measure length") (auto simp: less_Suc_eq_le)

text \<open>
  A sample host: a workspace \<^verbatim>\<open>/ws\<close> with the fips installation, the project \<^verbatim>\<open>app\<close> and
  an imported project \<^verbatim>\<open>lib\<close>. The tables give the results of \<^verbatim>\<open>glob\<close> and of
  \<^verbatim>\<open>yaml.load\<close>; the two predicates say in which build directories cmake's generate
  step and the build tool succeed.
\<close>

definition demo_env :: "(string \<times> string list) list \<Rightarrow> (string \<times> yaml_result) list
                          \<Rightarrow> (string \<Rightarrow> bool) \<Rightarrow> (string \<Rightarrow> bool) \<Rightarrow> env" where
  "demo_env globs yamls gen_ok build_ok =
     \<lparr> get_all_imports_exports = (\<lambda>fips_dir proj_dir f. (True, [(''app'', ''/ws/app''), (''lib'', ''/ws/lib'')])),
       get_configs_dir = (\<lambda>d f. if isdir f (d @ ''/fips-files/configs'')
                                 then Some (d @ ''/fips-files/configs'') else None),
       get_toolchains_dir = (\<lambda>d f. if isdir f (d @ ''/fips-files/toolchains'')
                                    then Some (d @ ''/fips-files/toolchains'') else None),
       get_project_name_from_dir = (\<lambda>d. snd (path_split d)),
       get_build_dir = (\<lambda>fips_dir proj_name cfg_name. ''/ws/fips-build/'' @ proj_name @ ''/'' @ cfg_name),
       get_deploy_dir = (\<lambda>fips_dir proj_name cfg_name. ''/ws/fips-deploy/'' @ proj_name @ ''/'' @ cfg_name),
       glob = (\<lambda>pat f. case map_of globs pat of Some ps \<Rightarrow> ps | None \<Rightarrow> []),
       yaml_load = (\<lambda>path f. case map_of yamls path of Some r \<Rightarrow> r | None \<Rightarrow> YamlOther),
       settings_get = (\<lambda>proj_dir key f. if key = ''jobs'' then PObj ''3'' True else PNone),
       get_policy = (\<lambda>proj_dir key f. False),
       get_ios_sdk_sysroot = (\<lambda>f. PStr ''/sdk/ios''),
       get_macos_sdk_sysroot = (\<lambda>f. PStr ''/sdk/macos''),
       tool_exists = (\<lambda>tool_name fips_dir f. True),
       sdk_exists = (\<lambda>sdk fips_dir f. True),
       make_name = ''make'',
       xcodebuild_name = ''xcodebuild'',
       fetch_imports = (\<lambda>fips_dir proj_dir f. (None, f)),
       ensure_valid_project_dir = (\<lambda>proj_dir f. (None, f)),
       gather_and_write_imports = (\<lambda>fips_dir proj_dir cfg_name f. (None, f)),
       cmake_run_gen = (\<lambda>c fips_dir proj_dir build_dir toolchain_path defines f.
                          (Inr (gen_ok build_dir),
                           if gen_ok build_dir then write_file (build_dir @ ''/CMakeCache.txt'') [] f else f)),
       ninja_prepare = (\<lambda>fips_dir build_dir f. f),
       run_build = (\<lambda>tool_name fips_dir target build_type build_dir num_jobs f. (build_ok build_dir, f)),
       vscode_write = (\<lambda>fips_dir proj_dir c f. f) \<rparr>"

definition demo_fs :: fs where
  "demo_fs = \<lparr> dirs = (\<lambda>d. d \<in> set [''/ws'', ''/ws/app'', ''/ws/app/fips-files'', ''/ws/app/fips-files/configs'',
                       ''/ws/fips'', ''/ws/fips/configs'', ''/ws/fips/cmake-toolchains'']),
               files = [''/ws/fips/cmake-toolchains/android.toolchain.cmake'' \<mapsto> ''set(ANDROID 1)''] \<rparr>"

definition demo_world :: world where
  "demo_world = \<lparr> fsys = demo_fs, trace = [] \<rparr>"

definition linux_make :: cfg where
  "linux_make = [''platform'' \<mapsto> PStr ''linux'', ''build_tool'' \<mapsto> PStr ''make'',
                 ''build_type'' \<mapsto> PStr ''Debug'']"

definition linux_ninja :: cfg where
  "linux_ninja = [''platform'' \<mapsto> PStr ''linux'', ''build_tool'' \<mapsto> PStr ''ninja'',
                  ''build_type'' \<mapsto> PStr ''Debug'', ''generator'' \<mapsto> PStr ''Ninja'']"

definition two_layers :: env where
  "two_layers = demo_env
     [(''/ws/app/fips-files/configs/linux-*.yml'', [''/ws/app/fips-files/configs/linux-dbg.yml'']),
      (''/ws/fips/configs/linux-*.yml'', [''/ws/fips/configs/linux-dbg.yml'', ''/ws/fips/configs/linux-rel.yml''])]
     [(''/ws/app/fips-files/configs/linux-dbg.yml'', YamlDict linux_ninja),
      (''/ws/fips/configs/linux-dbg.yml'', YamlDict linux_make),
      (''/ws/fips/configs/linux-rel.yml'', YamlDict linux_make)]
     (\<lambda>d. True) (\<lambda>d. True)"


text \<open>
  The sample host with a first file that does not parse; the parameter is the
  \<^verbatim>\<open>message\<close> attribute of the raised \<^verbatim>\<open>YAMLError\<close>.
\<close>

definition broken_file :: "pyval option \<Rightarrow> env" where
  "broken_file message = demo_env
     [(''/ws/app/fips-files/configs/linux-*.yml'', [''/ws/app/fips-files/configs/linux-bad.yml'']),
      (''/ws/fips/configs/linux-*.yml'', [''/ws/fips/configs/linux-dbg.yml''])]
     [(''/ws/app/fips-files/configs/linux-bad.yml'', YamlError message),
      (''/ws/fips/configs/linux-dbg.yml'', YamlDict linux_make)]
     (\<lambda>d. True) (\<lambda>d. True)"

text \<open>
  The toolchain search as the specification words it: the directories to look into, in
  priority order (the project's own toolchain directory, the one of each imported
  project in import order, the \<^verbatim>\<open>cmake-toolchains\<close> directory of the fips installation),
  and the file name looked for.
\<close>

definition toolchain_layers :: "env \<Rightarrow> string \<Rightarrow> string \<Rightarrow> fs \<Rightarrow> string list" where
  "toolchain_layers e fips_dir proj_dir f =
     (case truthy_dir (get_toolchains_dir e proj_dir f) of None \<Rightarrow> [] | Some d \<Rightarrow> [d])
     @ List.map_filter (\<lambda>(imported_proj_name, imported_proj_dir).
           truthy_dir (get_toolchains_dir e imported_proj_dir f))
         (snd (get_all_imports_exports e fips_dir proj_dir f))
     @ [fips_dir @ ''/cmake-toolchains'']"

definition toolchain_file :: "cfg \<Rightarrow> pyval \<Rightarrow> string" where
  "toolchain_file c plat =
     (case c ''cmake-toolchain'' of Some v \<Rightarrow> py_str v | None \<Rightarrow> py_str plat @ ''.toolchain.cmake'')"

text \<open>
  A host where the project and the imported project have toolchain directories, and
  sample configs: a cross-compiling one, a native one with a toolchain override, and a
  loaded one whose file has no \<^verbatim>\<open>build_tool\<close>.
\<close>

definition cross_fs :: fs where
  "cross_fs = \<lparr> dirs = (\<lambda>d. d \<in> set [''/ws'', ''/ws/app'', ''/ws/app/fips-files'', ''/ws/app/fips-files/toolchains'',
                        ''/ws/lib'', ''/ws/lib/fips-files'', ''/ws/lib/fips-files/toolchains'',
                        ''/ws/fips'', ''/ws/fips/cmake-toolchains'']),
                files = [''/ws/fips/cmake-toolchains/android.toolchain.cmake'' \<mapsto> ''set(ANDROID 1)'',
                         ''/ws/app/fips-files/toolchains/mine.cmake'' \<mapsto> ''set(MINE 1)''] \<rparr>"

definition android_make :: cfg where
  "android_make = [''platform'' \<mapsto> PStr ''android'', ''build_tool'' \<mapsto> PStr ''make'',
                   ''build_type'' \<mapsto> PStr ''Debug'']"

definition linux_override :: cfg where
  "linux_override = [''platform'' \<mapsto> PStr ''linux'', ''build_tool'' \<mapsto> PStr ''make'',
                     ''build_type'' \<mapsto> PStr ''Debug'', ''cmake-toolchain'' \<mapsto> PStr ''mine.cmake'']"

definition no_build_tool :: cfg where
  "no_build_tool = patch_cfg ''/ws/fips/configs/linux-dbg.yml''
                     [''platform'' \<mapsto> PStr ''linux'', ''build_type'' \<mapsto> PStr ''Debug'']"

text \<open>
  The toolchain that \<^verbatim>\<open>get_toolchain\<close> resolves for a config that has a platform; the
  build directory of a config; the number of calls of cmake's generate step in a trace.
\<close>

definition resolved_toolchain :: "env \<Rightarrow> string \<Rightarrow> string \<Rightarrow> cfg \<Rightarrow> fs \<Rightarrow> string option" where
  "resolved_toolchain e fips_dir proj_dir c f =
     (case c ''platform'' of
        None \<Rightarrow> None
      | Some plat \<Rightarrow>
          if plat \<in> set (map PStr native_platforms) then None
          else find (isfile f) (map (\<lambda>d. d @ ''/'' @ toolchain_file c plat)
                                  (toolchain_layers e fips_dir proj_dir f)))"

definition build_dir_of :: "env \<Rightarrow> string \<Rightarrow> string \<Rightarrow> cfg \<Rightarrow> string" where
  "build_dir_of e fips_dir proj_dir c =
     get_build_dir e fips_dir (get_project_name_from_dir e proj_dir) (py_str (the (c ''name'')))"

definition is_run_gen :: "event \<Rightarrow> bool" where
  "is_run_gen ev = (case ev of Cmake_run_gen c fips_dir proj_dir build_dir toolchain_path defines \<Rightarrow> True
                    | _ \<Rightarrow> False)"

definition gen_calls :: "event list \<Rightarrow> nat" where
  "gen_calls tr = length (filter is_run_gen tr)"

text \<open>
  Loaded sample configs, a host where the build directory of \<^verbatim>\<open>linux-dbg\<close> holds its
  cache marker, and a host with an \<^verbatim>\<open>.idea\<close> directory that holds only \<^verbatim>\<open>misc.xml\<close>.
\<close>

definition loaded_linux :: cfg where
  "loaded_linux = patch_cfg ''/ws/fips/configs/linux-dbg.yml'' linux_make"

definition built_world :: world where
  "built_world = \<lparr> fsys = \<lparr> dirs = (\<lambda>d. d \<in> set [''/ws'', ''/ws/app'', ''/ws/fips'', ''/ws/fips/configs'', ''/ws/fips-build'',
                                      ''/ws/fips-build/app'', ''/ws/fips-build/app/linux-dbg'']),
                              files = [''/ws/fips-build/app/linux-dbg/CMakeCache.txt'' \<mapsto> ''CMAKE_BUILD_TYPE=Debug''] \<rparr>,
                    trace = [] \<rparr>"

definition loaded_clion :: cfg where
  "loaded_clion = patch_cfg ''/ws/fips/configs/linux-clion.yml''
                    [''platform'' \<mapsto> PStr ''linux'', ''build_tool'' \<mapsto> PStr ''clion'',
                     ''build_type'' \<mapsto> PStr ''Debug'']"

definition idea_world :: world where
  "idea_world = \<lparr> fsys = \<lparr> dirs = (\<lambda>d. d \<in> set [''/ws'', ''/ws/app'', ''/ws/app/.idea'', ''/ws/fips'',
                                     ''/ws/fips-build/app/linux-clion'']),
                             files = [''/ws/app/.idea/misc.xml'' \<mapsto> ''<project version=5/>''] \<rparr>,
                   trace = [] \<rparr>"

text \<open>
  The file system once \<^verbatim>\<open>gen_project\<close> has made sure that the build directory exists; a
  host whose \<^verbatim>\<open>.idea\<close> directory already holds the CLion files.
\<close>

definition with_build_dir :: "env \<Rightarrow> string \<Rightarrow> string \<Rightarrow> cfg \<Rightarrow> fs \<Rightarrow> fs" where
  "with_build_dir e fips_dir proj_dir c f =
     (if \<not> isdir f (build_dir_of e fips_dir proj_dir c)
      then makedirs (build_dir_of e fips_dir proj_dir c) f else f)"

text \<open>
  What cmake's generate step gives when \<^verbatim>\<open>gen_project\<close> calls it for a config: a value
  or an exception.
\<close>

definition generate_outcome :: "env \<Rightarrow> string \<Rightarrow> string \<Rightarrow> cfg \<Rightarrow> fs \<Rightarrow> exn + bool" where
  "generate_outcome e fips_dir proj_dir c f =
     fst (cmake_run_gen e c fips_dir proj_dir (build_dir_of e fips_dir proj_dir c)
            (resolved_toolchain e fips_dir proj_dir c (with_build_dir e fips_dir proj_dir c f))
            (gen_defines e proj_dir (the (c ''generator'')) (the (c ''platform'')) f)
            (if c ''build_tool'' = Some (PStr ''ninja'')
             then ninja_prepare e fips_dir (build_dir_of e fips_dir proj_dir c)
                    (with_build_dir e fips_dir proj_dir c f)
             else with_build_dir e fips_dir proj_dir c f))"

definition kept_world :: world where
  "kept_world = \<lparr> fsys = \<lparr> dirs = (\<lambda>d. d \<in> set [''/ws'', ''/ws/app'', ''/ws/app/.idea'', ''/ws/fips'']),
                             files = [''/ws/app/.idea/workspace.xml'' \<mapsto> ''<project version=5/>'',
                                      ''/ws/app/.idea/app.iml'' \<mapsto> ''<module/>'',
                                      ''/ws/app/.idea/misc.xml'' \<mapsto> ''<project/>''] \<rparr>,
                   trace = [] \<rparr>"

text \<open>
  A config with a build tool that does not exist, and a host where \<^verbatim>\<open>linux-*\<close> matches
  three configs: \<^verbatim>\<open>linux-a\<close> builds, \<^verbatim>\<open>linux-b\<close> is not valid, and the build tool fails in
  the build directory of \<^verbatim>\<open>linux-c\<close>.
\<close>

definition linux_scons :: cfg where
  "linux_scons = [''platform'' \<mapsto> PStr ''linux'', ''build_tool'' \<mapsto> PStr ''scons'',
                  ''build_type'' \<mapsto> PStr ''Debug'']"

definition three_configs :: env where
  "three_configs = demo_env
     [(''/ws/fips/configs/linux-*.yml'',
       [''/ws/fips/configs/linux-a.yml'', ''/ws/fips/configs/linux-b.yml'', ''/ws/fips/configs/linux-c.yml''])]
     [(''/ws/fips/configs/linux-a.yml'', YamlDict linux_make),
      (''/ws/fips/configs/linux-b.yml'', YamlDict linux_scons),
      (''/ws/fips/configs/linux-c.yml'', YamlDict linux_make)]
     (\<lambda>d. True) (\<lambda>d. d \<noteq> ''/ws/fips-build/app/linux-c'')"



text \<open>What a trace shows: the lines printed, and the tool runs with their directories.\<close>

definition printed :: "event list \<Rightarrow> string list" where
  "printed tr = concat (map (\<lambda>ev. case ev of Print s \<Rightarrow> [s] | _ \<Rightarrow> []) tr)"

definition tool_calls :: "event list \<Rightarrow> (string \<times> string) list" where
  "tool_calls tr = concat (map (\<lambda>ev. case ev of
        Print s \<Rightarrow> []
      | Cmake_run_gen c fips_dir proj_dir build_dir toolchain_path defines \<Rightarrow> [(''cmake generate'', build_dir)]
      | Ninja_prepare fips_dir build_dir \<Rightarrow> [(''ninja prepare'', build_dir)]
      | Run_build tool_name fips_dir target build_type build_dir num_jobs \<Rightarrow> [(tool_name, build_dir)]
      | Vscode_write fips_dir proj_dir c \<Rightarrow> [(''vscode'', proj_dir)]) tr)"

section \<open>Loading: first occurrence wins\<close>

lemma load_path_fsys: "load_path e p acc w = (r, w') \<Longrightarrow> fsys w' = fsys w"
  by (auto simp: load_path_def error_def emit_def Let_def split: yaml_result.splits option.splits sum.splits bool.splits if_splits)

lemma load_paths_fsys: "load_paths e ps acc w = (r, w') \<Longrightarrow> fsys w' = fsys w"
proof (induction ps arbitrary: acc w)
  case Nil then show ?case by simp
next
  case (Cons p ps)
  obtain r1 w1 where l: "load_path e p acc w = (r1, w1)" by (cases "load_path e p acc w")
  then have f: "fsys w1 = fsys w" by (rule load_path_fsys)
  show ?case
  proof (cases r1)
    case (Inl x) with Cons.prems l f show ?thesis by simp
  next
    case (Inr a) with Cons.prems l have "load_paths e ps a w1 = (r, w')" by simp
    then have "fsys w' = fsys w1" by (rule Cons.IH)
    with f show ?thesis by simp
  qed
qed

lemma load_paths_append:
  "load_paths e (ps @ qs) acc w =
     (case load_paths e ps acc w of (Inl x, w') \<Rightarrow> (Inl x, w') | (Inr acc', w') \<Rightarrow> load_paths e qs acc' w')"
  by (induction ps arbitrary: acc w) (auto split: prod.splits sum.splits)

lemma load_dirs_paths:
  "load_dirs e pattern ds acc w = load_paths e (matched_paths e pattern ds (fsys w)) acc w"
proof (induction ds arbitrary: acc w)
  case Nil then show ?case by (simp add: matched_paths_def)
next
  case (Cons d ds)
  obtain r1 w1 where l: "load_paths e (glob e (d @ ''/'' @ pattern @ ''.yml'') (fsys w)) acc w = (r1, w1)"
    by (cases "load_paths e (glob e (d @ ''/'' @ pattern @ ''.yml'') (fsys w)) acc w")
  then have f: "fsys w1 = fsys w" by (rule load_paths_fsys)
  show ?case using l f Cons.IH
    by (cases r1) (simp_all add: matched_paths_def load_paths_append)
qed


lemma patch_cfg_name: "patch_cfg p c ''name'' = Some (PStr (name_of_path p))"
  by (simp add: patch_cfg_def set_default_def Let_def)

lemma name_taken_named:
  "\<forall>c\<in>set acc. c ''name'' \<noteq> None \<Longrightarrow>
     name_taken acc v = Inr (Some v \<in> (\<lambda>c. c ''name'') ` set acc)"
  by (induction acc) (auto split: option.splits)

lemma load_path_dict:
  assumes "yaml_load e p (fsys w) = YamlDict c0" "\<forall>c\<in>set acc. c ''name'' \<noteq> None"
  shows "load_path e p acc w =
          (Inr (if Some (PStr (name_of_path p)) \<in> (\<lambda>c. c ''name'') ` set acc then acc
                else acc @ [cfg_of_file e (fsys w) p]), w)"
  using assms by (simp add: load_path_def name_taken_named cfg_of_file_def)

lemma load_paths_shadow:
  assumes "\<forall>p\<in>set ps. is_dict (yaml_load e p (fsys w))" "\<forall>c\<in>set acc. c ''name'' \<noteq> None"
  shows "load_paths e ps acc w =
          (Inr (acc @ map (cfg_of_file e (fsys w))
                  (shadow (filter (\<lambda>p. Some (PStr (name_of_path p)) \<notin> (\<lambda>c. c ''name'') ` set acc) ps))), w)"
  using assms
proof (induction ps arbitrary: acc)
  case Nil then show ?case by simp
next
  case (Cons p ps)
  from Cons.prems(1) obtain c0 where c0: "yaml_load e p (fsys w) = YamlDict c0"
    by (auto simp: is_dict_def split: yaml_result.splits)
  note lp = load_path_dict [OF c0 Cons.prems(2)]
  show ?case
  proof (cases "Some (PStr (name_of_path p)) \<in> (\<lambda>c. c ''name'') ` set acc")
    case True
    with lp Cons show ?thesis by simp
  next
    case False
    let ?acc = "acc @ [cfg_of_file e (fsys w) p]"
    have named: "\<forall>c\<in>set ?acc. c ''name'' \<noteq> None"
      using Cons.prems(2) by (simp add: cfg_of_file_def patch_cfg_name)
    have ih: "load_paths e ps ?acc w =
          (Inr (?acc @ map (cfg_of_file e (fsys w))
                  (shadow (filter (\<lambda>p. Some (PStr (name_of_path p)) \<notin> (\<lambda>c. c ''name'') ` set ?acc) ps))), w)"
      using Cons.IH [OF _ named] Cons.prems(1) by simp
    have flt: "filter (\<lambda>q. Some (PStr (name_of_path q)) \<notin> (\<lambda>c. c ''name'') ` set ?acc) ps
             = filter (\<lambda>q. name_of_path q \<noteq> name_of_path p)
                 (filter (\<lambda>q. Some (PStr (name_of_path q)) \<notin> (\<lambda>c. c ''name'') ` set acc) ps)"
      by (auto simp: cfg_of_file_def patch_cfg_name intro!: filter_cong)
    show ?thesis using False lp ih flt by simp
  qed
qed

lemma shadow_subset: "set (shadow ps) \<subseteq> set ps"
  by (induction ps rule: shadow.induct) auto

lemma shadow_names: "name_of_path ` set (shadow ps) = name_of_path ` set ps"
  by (induction ps rule: shadow.induct) auto

lemma shadow_distinct: "distinct (map name_of_path (shadow ps))"
proof (induction ps rule: shadow.induct)
  case 1 show ?case by simp
next
  case (2 p ps)
  have "name_of_path p \<notin> name_of_path ` set (shadow (filter (\<lambda>q. name_of_path q \<noteq> name_of_path p) ps))"
    using shadow_subset [of "filter (\<lambda>q. name_of_path q \<noteq> name_of_path p) ps"] by auto
  with "2.IH" show ?case by simp
qed

lemma shadow_first:
  "q \<in> set (shadow ps) \<Longrightarrow> find (\<lambda>r. name_of_path r = name_of_path q) ps = Some q"
proof (induction ps rule: shadow.induct)
  case 1 then show ?case by simp
next
  case (2 p ps)
  show ?case
  proof (cases "q = p")
    case True then show ?thesis by simp
  next
    case False
    with "2.prems" have q: "q \<in> set (shadow (filter (\<lambda>r. name_of_path r \<noteq> name_of_path p) ps))" by simp
    then have ne: "name_of_path q \<noteq> name_of_path p" using shadow_subset by fastforce
    have "find (\<lambda>r. name_of_path r = name_of_path q) (filter (\<lambda>r. name_of_path r \<noteq> name_of_path p) ps)
          = find (\<lambda>r. name_of_path r = name_of_path q) ps"
      using ne by (induction ps) auto
    with "2.IH" [OF q] ne show ?thesis by auto
  qed
qed

lemma get_config_dirs_fsys: "get_config_dirs e fd pd w = (ds, w') \<Longrightarrow> fsys w' = fsys w"
  by (auto simp: get_config_dirs_def warn_def emit_def split: if_splits prod.splits)

text \<open>
  C2: when several files, of the same layer or of different layers, give the same
  config name, \<^verbatim>\<open>load\<close> returns exactly one config of that name, the one made from the
  first such file in the order of \<^verbatim>\<open>get_config_dirs\<close>; the later ones are dropped and
  nothing is printed for them (the world after \<^verbatim>\<open>load\<close> is the one after
  \<^verbatim>\<open>get_config_dirs\<close>). This is for files that all parse to a dict.
\<close>

theorem load_first_occurrence_wins:
  assumes ds: "get_config_dirs e fips_dir proj_dir w = (ds, w')"
      and parsed: "\<forall>p\<in>set (matched_paths e pattern ds (fsys w')). is_dict (yaml_load e p (fsys w'))"
  shows "\<exists>cfgs. load e fips_dir proj_dir pattern w = (Inr cfgs, w')
           \<and> cfgs = map (cfg_of_file e (fsys w')) (shadow (matched_paths e pattern ds (fsys w')))
           \<and> distinct (map (\<lambda>c. c ''name'') cfgs)
           \<and> (\<forall>p\<in>set (matched_paths e pattern ds (fsys w')).
                 \<exists>c\<in>set cfgs. c ''name'' = Some (PStr (name_of_path p)))
           \<and> (\<forall>c\<in>set cfgs. \<exists>p.
                 find (\<lambda>q. Some (PStr (name_of_path q)) = c ''name'')
                   (matched_paths e pattern ds (fsys w')) = Some p
                 \<and> c = cfg_of_file e (fsys w') p)"
proof -
  let ?ps = "matched_paths e pattern ds (fsys w')"
  let ?cfgs = "map (cfg_of_file e (fsys w')) (shadow ?ps)"
  have "load e fips_dir proj_dir pattern w = load_paths e ?ps [] w'"
    using ds by (simp add: load_def load_dirs_paths)
  also have "\<dots> = (Inr ?cfgs, w')"
    using load_paths_shadow [OF parsed, of "[]"] by simp
  finally have l: "load e fips_dir proj_dir pattern w = (Inr ?cfgs, w')" .
  have nm: "map (\<lambda>c. c ''name'') ?cfgs = map (\<lambda>p. Some (PStr (name_of_path p))) (shadow ?ps)"
    by (simp add: cfg_of_file_def patch_cfg_name)
  have d: "distinct (map (\<lambda>c. c ''name'') ?cfgs)"
    unfolding nm using shadow_distinct [of ?ps] by (simp add: distinct_map inj_on_def)
  have cover: "\<forall>p\<in>set ?ps. \<exists>c\<in>set ?cfgs. c ''name'' = Some (PStr (name_of_path p))"
  proof
    fix p assume "p \<in> set ?ps"
    then have "name_of_path p \<in> name_of_path ` set (shadow ?ps)" by (simp add: shadow_names)
    then obtain q where "q \<in> set (shadow ?ps)" "name_of_path q = name_of_path p" by auto
    then show "\<exists>c\<in>set ?cfgs. c ''name'' = Some (PStr (name_of_path p))"
      by (auto simp: cfg_of_file_def patch_cfg_name intro!: bexI [of _ q])
  qed
  have first: "\<forall>c\<in>set ?cfgs. \<exists>p.
                 find (\<lambda>q. Some (PStr (name_of_path q)) = c ''name'') ?ps = Some p
                 \<and> c = cfg_of_file e (fsys w') p"
  proof
    fix c assume "c \<in> set ?cfgs"
    then obtain q where q: "q \<in> set (shadow ?ps)" "c = cfg_of_file e (fsys w') q" by auto
    have "(\<lambda>r. Some (PStr (name_of_path r)) = c ''name'') = (\<lambda>r. name_of_path r = name_of_path q)"
      using q(2) by (auto simp: cfg_of_file_def patch_cfg_name)
    with shadow_first [OF q(1)] q(2)
    show "\<exists>p. find (\<lambda>q. Some (PStr (name_of_path q)) = c ''name'') ?ps = Some p
                 \<and> c = cfg_of_file e (fsys w') p" by simp
  qed
  from l d cover first show ?thesis by blast
qed

lemma two_layers_dirs:
  "get_config_dirs two_layers ''/ws/fips'' ''/ws/app'' demo_world
     = ([''/ws/app/fips-files/configs'', ''/ws/fips/configs''], demo_world)"
  by (simp add: get_config_dirs_def two_layers_def demo_env_def demo_world_def demo_fs_def
        isdir_def List.map_filter_def)

lemma two_layers_paths:
  "matched_paths two_layers ''linux-*'' [''/ws/app/fips-files/configs'', ''/ws/fips/configs''] (fsys demo_world)
     = [''/ws/app/fips-files/configs/linux-dbg.yml'', ''/ws/fips/configs/linux-dbg.yml'',
        ''/ws/fips/configs/linux-rel.yml'']"
  by (simp add: matched_paths_def two_layers_def demo_env_def)

lemma demo_names:
  "name_of_path ''/ws/app/fips-files/configs/linux-dbg.yml'' = ''linux-dbg''"
  "name_of_path ''/ws/fips/configs/linux-dbg.yml'' = ''linux-dbg''"
  "name_of_path ''/ws/fips/configs/linux-rel.yml'' = ''linux-rel''"
  by (simp_all add: name_of_path_def path_split_def splitext_def is_slash_def is_dot_def)

theorem load_first_occurrence_wins_witness:
  "map (\<lambda>c. (c ''name'', c ''path'', c ''build_tool''))
     (projr (fst (load two_layers ''/ws/fips'' ''/ws/app'' ''linux-*'' demo_world)))
   = [(Some (PStr ''linux-dbg''), Some (PStr ''/ws/app/fips-files/configs/linux-dbg.yml''),
       Some (PStr ''ninja'')),
      (Some (PStr ''linux-rel''), Some (PStr ''/ws/fips/configs/linux-rel.yml''),
       Some (PStr ''make''))]
   \<and> snd (load two_layers ''/ws/fips'' ''/ws/app'' ''linux-*'' demo_world) = demo_world"
proof -
  have parsed: "\<forall>p\<in>set (matched_paths two_layers ''linux-*''
                   [''/ws/app/fips-files/configs'', ''/ws/fips/configs''] (fsys demo_world)).
                 is_dict (yaml_load two_layers p (fsys demo_world))"
    unfolding two_layers_paths by (simp add: two_layers_def demo_env_def is_dict_def)
  from load_first_occurrence_wins [OF two_layers_dirs parsed]
  have "load two_layers ''/ws/fips'' ''/ws/app'' ''linux-*'' demo_world
        = (Inr (map (cfg_of_file two_layers (fsys demo_world))
                 (shadow [''/ws/app/fips-files/configs/linux-dbg.yml'', ''/ws/fips/configs/linux-dbg.yml'',
                          ''/ws/fips/configs/linux-rel.yml''])), demo_world)"
    unfolding two_layers_paths by blast
  then show ?thesis
    by (simp add: demo_names cfg_of_file_def patch_cfg_def set_default_def Let_def
          two_layers_def demo_env_def linux_make_def linux_ninja_def)
qed

section \<open>Listing\<close>

lemma odict_set_keys:
  "map fst (odict_set k v ps) = (if k \<in> set (map fst ps) then map fst ps else map fst ps @ [k])"
  by (induction ps) auto

lemma odict_set_map_of: "map_of (odict_set k v ps) = (map_of ps)(k \<mapsto> v)"
  by (induction ps) (auto simp: fun_eq_iff)

lemma remdups_append_dup: "d \<in> set ys \<Longrightarrow> remdups (xs @ d # ys) = remdups (xs @ ys)"
  by (induction xs) auto

lemma list_loop_keys:
  "distinct (map fst res) \<Longrightarrow>
     map fst (list_loop e f ds res) = rev (remdups (rev (map fst res @ ds)))
     \<and> distinct (map fst (list_loop e f ds res))"
proof (induction ds arbitrary: res)
  case Nil then show ?case by (simp add: distinct_remdups_id)
next
  case (Cons d ds)
  let ?v = "sort (map name_of_path (glob e (d @ ''/*.yml'') f))"
  have dist: "distinct (map fst (odict_set d ?v res))"
    using Cons.prems by (simp add: odict_set_keys)
  show ?case
  proof (cases "d \<in> set (map fst res)")
    case True
    then have "remdups (rev ds @ d # rev (map fst res)) = remdups (rev ds @ rev (map fst res))"
      by (intro remdups_append_dup) simp
    with Cons.IH [OF dist] True show ?thesis by (simp add: odict_set_keys)
  next
    case False
    with Cons.IH [OF dist] show ?thesis by (simp add: odict_set_keys)
  qed
qed

lemma list_loop_map_of:
  "map_of (list_loop e f ds res) d =
     (if d \<in> set ds then Some (sort (map name_of_path (glob e (d @ ''/*.yml'') f)))
      else map_of res d)"
  by (induction ds arbitrary: res) (auto simp: odict_set_map_of)

lemma alist_by_keys:
  "distinct (map fst ps) \<Longrightarrow> ps = map (\<lambda>k. (k, the (map_of ps k))) (map fst ps)"
proof (induction ps)
  case Nil show ?case by simp
next
  case (Cons p ps)
  then have "ps = map (\<lambda>k. (k, the (map_of ps k))) (map fst ps)" by simp
  moreover have "map (\<lambda>k. (k, the (map_of ps k))) (map fst ps)
               = map (\<lambda>k. (k, the (map_of (p # ps) k))) (map fst ps)"
    using Cons.prems by (intro map_cong) (auto simp: rev_image_eqI)
  ultimately show ?case by (cases p) simp
qed

lemma list_loop_eq:
  "list_loop e f ds [] =
     map (\<lambda>d. (d, sort (map name_of_path (glob e (d @ ''/*.yml'') f)))) (rev (remdups (rev ds)))"
proof -
  let ?r = "list_loop e f ds []"
  have k: "map fst ?r = rev (remdups (rev ds))" and d: "distinct (map fst ?r)"
    using list_loop_keys [of "[]" e f ds] by simp_all
  have "?r = map (\<lambda>k. (k, the (map_of ?r k))) (map fst ?r)" using d by (rule alist_by_keys)
  also have "\<dots> = map (\<lambda>k. (k, the (map_of ?r k))) (rev (remdups (rev ds)))" by (simp only: k)
  also have "\<dots> = map (\<lambda>d. (d, sort (map name_of_path (glob e (d @ ''/*.yml'') f)))) (rev (remdups (rev ds)))"
    by (intro map_cong) (auto simp: list_loop_map_of)
  finally show ?thesis .
qed

text \<open>
  C10: \<^verbatim>\<open>list\<close> gives the same result for any two patterns: the pattern is not used.
  The result maps each config directory, in the order of \<^verbatim>\<open>get_config_dirs\<close> (a
  directory that occurs twice keeps its first place), to the sorted names of the files
  that \<^verbatim>\<open>glob\<close> finds for \<^verbatim>\<open>*.yml\<close> in it.
\<close>

theorem list_configs_ignores_pattern:
  "list_configs e fips_dir proj_dir p w = list_configs e fips_dir proj_dir q w
   \<and> list_configs e fips_dir proj_dir p w =
       (map (\<lambda>d. (d, sort (map name_of_path
                     (glob e (d @ ''/*.yml'') (fsys (snd (get_config_dirs e fips_dir proj_dir w)))))))
          (rev (remdups (rev (fst (get_config_dirs e fips_dir proj_dir w))))),
        snd (get_config_dirs e fips_dir proj_dir w))"
  by (simp add: list_configs_def list_loop_eq split: prod.splits)

section \<open>Loading: a file that does not parse\<close>

text \<open>
  C4: the claim says that a file failing to parse is reported without ending the run
  and that the other files are still loaded. The handler calls
  \<^verbatim>\<open>log.error('YML parse error: {}', e.message)\<close>, so the message is the \<^verbatim>\<open>fatal\<close> flag.
  With an exception that has no attribute \<^verbatim>\<open>message\<close> the handler itself raises
  \<^verbatim>\<open>AttributeError\<close>; with a non-empty message the run ends with \<^verbatim>\<open>sys.exit(10)\<close>. In
  both cases the second layer's \<^verbatim>\<open>linux-dbg.yml\<close> is never loaded.
\<close>

theorem load_yaml_error_halts:
  "load (broken_file None) ''/ws/fips'' ''/ws/app'' ''linux-*'' demo_world
     = (Inl (AttributeError ''message''), demo_world)
   \<and> load (broken_file (Some (PStr ''mapping values are not allowed here'')))
        ''/ws/fips'' ''/ws/app'' ''linux-*'' demo_world
     = (Inl (SystemExit 10),
        emit (Print (RED @ ''[ERROR]'' @ DEF @ '' YML parse error: {}'')) demo_world)"
  by (simp add: load_def get_config_dirs_def broken_file_def demo_env_def demo_world_def demo_fs_def
        isdir_def List.map_filter_def load_path_def error_def)

text \<open>Only an exception whose message is empty lets the loop go on.\<close>

lemma load_yaml_error_empty_message:
  "map (\<lambda>c. c ''path'')
     (projr (fst (load (broken_file (Some (PStr []))) ''/ws/fips'' ''/ws/app'' ''linux-*'' demo_world)))
     = [Some (PStr ''/ws/fips/configs/linux-dbg.yml'')]
   \<and> snd (load (broken_file (Some (PStr []))) ''/ws/fips'' ''/ws/app'' ''linux-*'' demo_world)
     = emit (Print (RED @ ''[ERROR]'' @ DEF @ '' YML parse error: {}'')) demo_world"
  by (simp add: load_def get_config_dirs_def broken_file_def demo_env_def demo_world_def demo_fs_def
        isdir_def List.map_filter_def load_path_def error_def emit_def patch_cfg_def set_default_def
        Let_def linux_make_def)

section \<open>Toolchain resolution\<close>

lemma toolchain_in_imports_find:
  "toolchain_in_imports e f t imps =
     find (isfile f) (map (\<lambda>d. d @ ''/'' @ t)
       (List.map_filter (\<lambda>(n, d). truthy_dir (get_toolchains_dir e d f)) imps))"
  by (induction imps) (auto simp: List.map_filter_def split: option.splits)

lemma find_append: "find P (xs @ ys) = (case find P xs of Some x \<Rightarrow> Some x | None \<Rightarrow> find P ys)"
  by (induction xs) auto

lemma find_toolchain_layers:
  "find_toolchain e fips_dir proj_dir t f =
     find (isfile f) (map (\<lambda>d. d @ ''/'' @ t) (toolchain_layers e fips_dir proj_dir f))"
  by (simp add: find_toolchain_def toolchain_layers_def toolchain_in_imports_find find_append Let_def
        split: option.splits)

text \<open>
  C6: for a platform that is not native, \<^verbatim>\<open>get_toolchain\<close> looks for the toolchain file
  name (the \<^verbatim>\<open>cmake-toolchain\<close> override if the config has one, else
  \<^verbatim>\<open><platform>.toolchain.cmake\<close>) in the project's toolchain directory, then in each
  imported project's in import order, then in \<^verbatim>\<open><fips_dir>/cmake-toolchains\<close>, and returns
  the path of the first layer where it is a regular file, or \<^verbatim>\<open>None\<close> when no layer has it.
\<close>

theorem get_toolchain_layered:
  assumes "c ''platform'' = Some plat" and "plat \<notin> set (map PStr native_platforms)"
  shows "get_toolchain e fips_dir proj_dir c w =
           (Inr (find (isfile (fsys w))
                   (map (\<lambda>d. d @ ''/'' @ toolchain_file c plat)
                      (toolchain_layers e fips_dir proj_dir (fsys w)))), w)"
  using assms
  by (simp add: get_toolchain_def toolchain_name_def and_then_def ret_def getitem_def
        find_toolchain_layers toolchain_file_def split: option.splits)

theorem get_toolchain_layered_witness:
  "toolchain_layers (demo_env [] [] (\<lambda>d. True) (\<lambda>d. True)) ''/ws/fips'' ''/ws/app'' cross_fs
     = [''/ws/app/fips-files/toolchains'', ''/ws/app/fips-files/toolchains'',
        ''/ws/lib/fips-files/toolchains'', ''/ws/fips/cmake-toolchains'']
   \<and> get_toolchain (demo_env [] [] (\<lambda>d. True) (\<lambda>d. True)) ''/ws/fips'' ''/ws/app'' android_make
        \<lparr>fsys = cross_fs, trace = []\<rparr>
     = (Inr (Some ''/ws/fips/cmake-toolchains/android.toolchain.cmake''), \<lparr>fsys = cross_fs, trace = []\<rparr>)"
proof -
  have l: "toolchain_layers (demo_env [] [] (\<lambda>d. True) (\<lambda>d. True)) ''/ws/fips'' ''/ws/app'' cross_fs
     = [''/ws/app/fips-files/toolchains'', ''/ws/app/fips-files/toolchains'',
        ''/ws/lib/fips-files/toolchains'', ''/ws/fips/cmake-toolchains'']"
    by (simp add: toolchain_layers_def demo_env_def cross_fs_def isdir_def List.map_filter_def)
  have p: "android_make ''platform'' = Some (PStr ''android'')" by (simp add: android_make_def)
  have n: "PStr ''android'' \<notin> set (map PStr native_platforms)" by (simp add: native_platforms_def)
  show ?thesis
    using get_toolchain_layered [where c = android_make and e = "demo_env [] [] (\<lambda>d. True) (\<lambda>d. True)"
             and fips_dir = "''/ws/fips''" and proj_dir = "''/ws/app''"
             and w = "\<lparr>fsys = cross_fs, trace = []\<rparr>", OF p n]
    by (simp add: l toolchain_file_def android_make_def) (simp add: isfile_def cross_fs_def)
qed

text \<open>The search as a function of the file system, for any config with a platform.\<close>

lemma get_toolchain_resolved:
  "c ''platform'' = Some plat \<Longrightarrow>
     get_toolchain e fips_dir proj_dir c w = (Inr (resolved_toolchain e fips_dir proj_dir c (fsys w)), w)"
  by (simp add: get_toolchain_def toolchain_name_def and_then_def ret_def getitem_def
        find_toolchain_layers toolchain_file_def resolved_toolchain_def split: option.splits)

text \<open>No layer has the file: the result is \<^verbatim>\<open>None\<close>.\<close>

lemma get_toolchain_none_found:
  assumes "c ''platform'' = Some plat" and "plat \<notin> set (map PStr native_platforms)"
    and "list_all (\<lambda>d. \<not> isfile (fsys w) (d @ ''/'' @ toolchain_file c plat))
           (toolchain_layers e fips_dir proj_dir (fsys w))"
  shows "get_toolchain e fips_dir proj_dir c w = (Inr None, w)"
proof -
  have "find (isfile (fsys w)) (map (\<lambda>d. d @ ''/'' @ toolchain_file c plat)
          (toolchain_layers e fips_dir proj_dir (fsys w))) = None"
    using assms(3) by (auto simp: find_None_iff list_all_iff)
  with get_toolchain_resolved [where c = c, OF assms(1)] assms(1,2) show ?thesis
    by (simp add: resolved_toolchain_def)
qed

text \<open>
  C7: for a config whose platform is one of the native platforms (osx, linux, win32,
  win64), \<^verbatim>\<open>get_toolchain\<close> returns \<^verbatim>\<open>None\<close> whatever the file system holds and whatever
  else the config says, prints nothing and changes nothing.
\<close>

theorem get_toolchain_native:
  assumes "c ''platform'' = Some (PStr plat)" and "plat \<in> set native_platforms"
  shows "get_toolchain e fips_dir proj_dir c w = (Inr None, w)"
  using assms by (simp add: get_toolchain_def ret_def)

theorem get_toolchain_native_witness:
  "isfile cross_fs (''/ws/app/fips-files/toolchains/'' @ py_str (the (linux_override ''cmake-toolchain'')))
   \<and> get_toolchain (demo_env [] [] (\<lambda>d. True) (\<lambda>d. True)) ''/ws/fips'' ''/ws/app'' linux_override
        \<lparr>fsys = cross_fs, trace = []\<rparr>
     = (Inr None, \<lparr>fsys = cross_fs, trace = []\<rparr>)"
proof -
  have p: "linux_override ''platform'' = Some (PStr ''linux'')" by (simp add: linux_override_def)
  have n: "''linux'' \<in> set native_platforms" by (simp add: native_platforms_def)
  show ?thesis
    using get_toolchain_native [where c = linux_override, OF p n]
    by (simp add: isfile_def cross_fs_def linux_override_def)
qed

section \<open>Running computations step by step\<close>

lemma and_then_unfold:
  "and_then m k w = (case fst (m w) of Inl x \<Rightarrow> (Inl x, snd (m w)) | Inr a \<Rightarrow> k a (snd (m w)))"
  by (cases "m w") (auto simp: and_then_def split: sum.splits)

lemma act_run: "act f w = (Inr (), f w)"
  by (simp add: act_def)

lemma ret_run: "ret a w = (Inr a, w)"
  by (simp add: ret_def)

lemma getitem_run: "c k = Some v \<Longrightarrow> getitem c k w = (Inr v, w)"
  by (simp add: getitem_def)

lemma tool_run: "tool ev g w = (fst (g (fsys w)), \<lparr>fsys = snd (g (fsys w)), trace = trace w @ [ev]\<rparr>)"
  by (simp add: tool_def emit_def split: prod.splits)

lemma total_run: "total g f = (Inr (fst (g f)), snd (g f))"
  by (simp add: total_def split: prod.splits)

lemma colored_run: "colored col msg w = \<lparr>fsys = fsys w, trace = trace w @ [Print (col @ msg @ DEF)]\<rparr>"
  by (simp add: colored_def emit_def)

lemma info_run: "info msg w = \<lparr>fsys = fsys w, trace = trace w @ [Print msg]\<rparr>"
  by (simp add: info_def emit_def)

lemma error_run:
  "error msg fatal w = (if fatal then Inl (SystemExit 10) else Inr (),
                        \<lparr>fsys = fsys w, trace = trace w @ [Print (RED @ ''[ERROR]'' @ DEF @ '' '' @ msg)]\<rparr>)"
  by (simp add: error_def emit_def Let_def)

lemmas comp_simps = and_then_unfold act_run ret_run getitem_run tool_run total_run colored_run info_run
  error_run
  if_distribR

section \<open>Validation\<close>

text \<open>
  C5: the claim says that every missing required field gives one message and that the
  later checks still run. For a loaded config whose file has no \<^verbatim>\<open>build_tool\<close> the loop
  over the required fields does record the message, but the build-tool check then
  indexes \<^verbatim>\<open>cfg['build_tool']\<close>, and \<^verbatim>\<open>check_config_valid\<close> leaves with \<^verbatim>\<open>KeyError\<close>
  instead of returning its pair.
\<close>

theorem check_config_valid_missing_build_tool:
  "no_build_tool ''build_tool'' = None
   \<and> check_config_valid (demo_env [] [] (\<lambda>d. True) (\<lambda>d. True)) ''/ws/fips'' ''/ws/app'' no_build_tool False
        demo_world
     = (Inl (KeyError ''build_tool''), demo_world)"
  by (simp add: check_config_valid_def required_fields_def no_build_tool_def patch_cfg_def set_default_def
        Let_def and_then_def ret_def getitem_def check_platform_sdk_def check_sdk_def check_tool_name_def)

text \<open>
  With \<^verbatim>\<open>platform\<close> and \<^verbatim>\<open>build_tool\<close> present (and \<^verbatim>\<open>name\<close> and \<^verbatim>\<open>path\<close>, which the
  loader supplies) the function does return: the result is valid exactly when there is
  no message, and the messages begin with one line for each missing required field.
\<close>

lemma check_fields_run:
  assumes "c ''path'' = Some path"
  shows "check_fields c flds (valid, messages) w =
           (Inr (valid \<and> list_all (\<lambda>field. c field \<noteq> None) flds,
                 messages @ map (\<lambda>field. ''missing field '' @ sq @ field @ sq @ '' in '' @ sq @ py_str path @ sq)
                              (filter (\<lambda>field. c field = None) flds)), w)"
  using assms
  by (induction flds arbitrary: valid messages) (auto simp: comp_simps)

lemma check_config_valid_returns:
  assumes "c ''path'' = Some path" and "c ''name'' = Some name" and "c ''platform'' = Some plat"
    and "c ''build_tool'' = Some bt"
  shows "\<exists>messages rest.
           check_config_valid e fips_dir proj_dir c False w = (Inr (messages = [], messages), w)
           \<and> messages = map (\<lambda>field. ''missing field '' @ sq @ field @ sq @ '' in '' @ sq @ py_str path @ sq)
                            (filter (\<lambda>field. c field = None) required_fields) @ rest"
  using assms
  by (auto simp: check_config_valid_def check_fields_run check_platform_sdk_def check_tool_name_def
        check_tool_found_def check_toolchain_def comp_simps
        get_toolchain_resolved [where c = c, OF assms(3)] list_all_iff filter_empty_conv)

section \<open>Generation and its freshness guard\<close>

lemma write_workspace_settings_ok:
  assumes "c ''name'' = Some name"
  shows "fst (write_workspace_settings e fips_dir proj_dir c w) = Inr ()"
    and "trace (snd (write_workspace_settings e fips_dir proj_dir c w))
         = trace w @ [Print ''=== writing JetBrains CLion config files...'']"
  using assms
  by (simp_all add: write_workspace_settings_def write_clion_workspace_file_def comp_simps Let_def)

lemma run_generate_trace:
  assumes "c ''name'' = Some name" and "c ''path'' = Some path" and "c ''platform'' = Some plat"
    and "c ''build_tool'' = Some bt"
  shows "fst (run_generate e fips_dir proj_dir c build_dir defs w) =
     fst (cmake_run_gen e c fips_dir proj_dir build_dir
            (resolved_toolchain e fips_dir proj_dir c (fsys w)) defs
            (if bt = PStr ''ninja'' then ninja_prepare e fips_dir build_dir (fsys w) else fsys w))
   \<and> trace (snd (run_generate e fips_dir proj_dir c build_dir defs w)) =
       trace w
         @ [Print (YELLOW @ ''=== generating: '' @ py_str name @ DEF),
            Print (''config file: '' @ py_str path)]
         @ (if resolved_toolchain e fips_dir proj_dir c (fsys w) \<noteq> None
               \<and> resolved_toolchain e fips_dir proj_dir c (fsys w) \<noteq> Some []
            then [Print (''Using Toolchain File: ''
                           @ the (resolved_toolchain e fips_dir proj_dir c (fsys w)))] else [])
         @ (if bt = PStr ''ninja'' then [Ninja_prepare fips_dir build_dir] else [])
         @ [Cmake_run_gen c fips_dir proj_dir build_dir
              (resolved_toolchain e fips_dir proj_dir c (fsys w)) defs]
         @ (if isl (fst (cmake_run_gen e c fips_dir proj_dir build_dir
                           (resolved_toolchain e fips_dir proj_dir c (fsys w)) defs
                           (if bt = PStr ''ninja'' then ninja_prepare e fips_dir build_dir (fsys w)
                            else fsys w)))
            then []
            else (if bt = PStr ''vscode_cmake'' then [Vscode_write fips_dir proj_dir c] else [])
               @ (if bt = PStr ''clion''
                  then [Print ''=== writing JetBrains CLion config files...''] else []))"
proof -
  define tp where "tp = resolved_toolchain e fips_dir proj_dir c (fsys w)"
  define g where "g = cmake_run_gen e c fips_dir proj_dir build_dir tp defs"
  define f1 where "f1 = (if bt = PStr ''ninja'' then ninja_prepare e fips_dir build_dir (fsys w) else fsys w)"
  have gt: "get_toolchain e fips_dir proj_dir c w' = (Inr tp, w')" if "fsys w' = fsys w" for w'
    using get_toolchain_resolved [where c = c, OF assms(3)] that by (simp add: tp_def)
  note ws = write_workspace_settings_ok [where c = c, OF assms(1)]
  note defs = run_generate_def comp_simps gt g_def [symmetric]
  have bt: "bt = PStr ''ninja'' \<or> bt = PStr ''vscode_cmake'' \<or> bt = PStr ''clion''
            \<or> (bt \<noteq> PStr ''ninja'' \<and> bt \<noteq> PStr ''vscode_cmake'' \<and> bt \<noteq> PStr ''clion'')"
    by blast
  have "fst (run_generate e fips_dir proj_dir c build_dir defs w) = fst (g f1)
   \<and> trace (snd (run_generate e fips_dir proj_dir c build_dir defs w)) =
       trace w
         @ [Print (YELLOW @ ''=== generating: '' @ py_str name @ DEF),
            Print (''config file: '' @ py_str path)]
         @ (if tp \<noteq> None \<and> tp \<noteq> Some [] then [Print (''Using Toolchain File: '' @ the tp)] else [])
         @ (if bt = PStr ''ninja'' then [Ninja_prepare fips_dir build_dir] else [])
         @ [Cmake_run_gen c fips_dir proj_dir build_dir tp defs]
         @ (if isl (fst (g f1)) then []
            else (if bt = PStr ''vscode_cmake'' then [Vscode_write fips_dir proj_dir c] else [])
               @ (if bt = PStr ''clion''
                  then [Print ''=== writing JetBrains CLion config files...''] else []))"
  proof (cases "fst (g f1)")
    case (Inl x)
    from bt show ?thesis
    proof (elim disjE)
      assume "bt = PStr ''ninja''"
      with assms Inl show ?thesis by (simp add: defs f1_def)
    next
      assume "bt = PStr ''vscode_cmake''"
      with assms Inl show ?thesis by (simp add: defs f1_def)
    next
      assume "bt = PStr ''clion''"
      with assms Inl show ?thesis by (simp add: defs f1_def)
    next
      assume "bt \<noteq> PStr ''ninja'' \<and> bt \<noteq> PStr ''vscode_cmake'' \<and> bt \<noteq> PStr ''clion''"
      with assms Inl show ?thesis by (simp add: defs f1_def)
    qed
  next
    case (Inr r)
    from bt show ?thesis
    proof (elim disjE)
      assume "bt = PStr ''ninja''"
      with assms Inr show ?thesis by (simp add: defs f1_def)
    next
      assume "bt = PStr ''vscode_cmake''"
      with assms Inr show ?thesis by (simp add: defs f1_def)
    next
      assume "bt = PStr ''clion''"
      with assms Inr show ?thesis by (simp add: defs f1_def ws)
    next
      assume "bt \<noteq> PStr ''ninja'' \<and> bt \<noteq> PStr ''vscode_cmake'' \<and> bt \<noteq> PStr ''clion''"
      with assms Inr show ?thesis by (simp add: defs f1_def)
    qed
  qed
  then show ?thesis by (simp add: tp_def g_def f1_def)
qed

lemma makedirs_isfile: "isfile (makedirs p f) q = isfile f q"
  by (simp add: makedirs_def isfile_def)

lemma gen_project_skip:
  assumes "c ''name'' = Some name" and "c ''generator'' = Some generator" and "c ''platform'' = Some plat"
    and "\<not> force" and "isfile (fsys w) (build_dir_of e fips_dir proj_dir c @ ''/CMakeCache.txt'')"
  shows "gen_project e fips_dir proj_dir c force w =
           (Inr True, if \<not> isdir (fsys w) (build_dir_of e fips_dir proj_dir c)
                      then w\<lparr>fsys := makedirs (build_dir_of e fips_dir proj_dir c) (fsys w)\<rparr> else w)"
  using assms
  by (simp add: gen_project_def comp_simps Let_def build_dir_of_def makedirs_isfile)

lemma gen_project_generate:
  assumes "c ''name'' = Some name" and "c ''generator'' = Some generator" and "c ''platform'' = Some plat"
    and "force \<or> \<not> isfile (fsys w) (build_dir_of e fips_dir proj_dir c @ ''/CMakeCache.txt'')"
  shows "gen_project e fips_dir proj_dir c force w =
           run_generate e fips_dir proj_dir c (build_dir_of e fips_dir proj_dir c)
             (gen_defines e proj_dir generator plat (fsys w))
             (if \<not> isdir (fsys w) (build_dir_of e fips_dir proj_dir c)
              then w\<lparr>fsys := makedirs (build_dir_of e fips_dir proj_dir c) (fsys w)\<rparr> else w)"
  using assms
  by (auto simp: gen_project_def comp_simps Let_def build_dir_of_def makedirs_isfile)

lemma gen_calls_simps:
  "gen_calls (xs @ ys) = gen_calls xs + gen_calls ys"
  "gen_calls [] = 0"
  "gen_calls (Print s # xs) = gen_calls xs"
  "gen_calls (Ninja_prepare a b # xs) = gen_calls xs"
  "gen_calls (Vscode_write a b c # xs) = gen_calls xs"
  "gen_calls (Cmake_run_gen c a b d tp defs # xs) = Suc (gen_calls xs)"
  by (simp_all add: gen_calls_def is_run_gen_def)

lemma loaded_linux_keys:
  "loaded_linux ''name'' = Some (PStr ''linux-dbg'')"
  "loaded_linux ''generator'' = Some (PStr ''Default'')"
  "loaded_linux ''platform'' = Some (PStr ''linux'')"
  "loaded_linux ''path'' = Some (PStr ''/ws/fips/configs/linux-dbg.yml'')"
  "loaded_linux ''build_tool'' = Some (PStr ''make'')"
  by (simp_all add: loaded_linux_def patch_cfg_def set_default_def Let_def linux_make_def demo_names)

lemma demo_build_dir:
  "build_dir_of (demo_env g y a b) ''/ws/fips'' ''/ws/app'' loaded_linux = ''/ws/fips-build/app/linux-dbg''"
  by (simp add: build_dir_of_def demo_env_def loaded_linux_keys path_split_def is_slash_def)

text \<open>
  C3: for a config with the fields that \<^verbatim>\<open>gen_project\<close> reads, on a file system where
  a cache marker lies in an existing build directory, \<^verbatim>\<open>gen_project\<close> calls cmake's
  generate step (once) if and only if \<^verbatim>\<open>force\<close> is set, or the build directory does not
  exist, or it exists without \<^verbatim>\<open>CMakeCache.txt\<close>; otherwise it calls nothing, changes
  nothing and returns \<^verbatim>\<open>True\<close>.
\<close>

theorem gen_project_freshness:
  assumes "c ''name'' = Some name" and "c ''generator'' = Some generator" and "c ''platform'' = Some plat"
    and "c ''path'' = Some path" and "c ''build_tool'' = Some bt"
    and wf: "isfile (fsys w) (build_dir_of e fips_dir proj_dir c @ ''/CMakeCache.txt'')
             \<longrightarrow> isdir (fsys w) (build_dir_of e fips_dir proj_dir c)"
  shows "gen_calls (trace (snd (gen_project e fips_dir proj_dir c force w)))
           = gen_calls (trace w)
             + (if force \<or> \<not> isdir (fsys w) (build_dir_of e fips_dir proj_dir c)
                   \<or> (isdir (fsys w) (build_dir_of e fips_dir proj_dir c)
                       \<and> \<not> isfile (fsys w) (build_dir_of e fips_dir proj_dir c @ ''/CMakeCache.txt''))
                then 1 else 0)
         \<and> (\<not> force \<and> isdir (fsys w) (build_dir_of e fips_dir proj_dir c)
               \<and> isfile (fsys w) (build_dir_of e fips_dir proj_dir c @ ''/CMakeCache.txt'')
             \<longrightarrow> gen_project e fips_dir proj_dir c force w = (Inr True, w))"
proof (cases "force \<or> \<not> isfile (fsys w) (build_dir_of e fips_dir proj_dir c @ ''/CMakeCache.txt'')")
  case True
  note g = gen_project_generate [where c = c, OF assms(1-3) True]
  note t = run_generate_trace [where c = c, OF assms(1,4,3,5), THEN conjunct2]
  from True wf show ?thesis
    by (auto simp: g t gen_calls_simps)
next
  case False
  then have nf: "\<not> force"
    and mk: "isfile (fsys w) (build_dir_of e fips_dir proj_dir c @ ''/CMakeCache.txt'')" by simp_all
  with wf have d: "isdir (fsys w) (build_dir_of e fips_dir proj_dir c)" by simp
  from gen_project_skip [where c = c, OF assms(1-3) nf mk] d mk nf
  show ?thesis by simp
qed


theorem gen_project_freshness_witness:
  "gen_project (demo_env [] [] (\<lambda>d. True) (\<lambda>d. True)) ''/ws/fips'' ''/ws/app'' loaded_linux False built_world
     = (Inr True, built_world)
   \<and> gen_calls (trace (snd (gen_project (demo_env [] [] (\<lambda>d. True) (\<lambda>d. True)) ''/ws/fips'' ''/ws/app''
                                loaded_linux True built_world))) = 1"
proof -
  have wf: "isfile (fsys built_world)
              (build_dir_of (demo_env [] [] (\<lambda>d. True) (\<lambda>d. True)) ''/ws/fips'' ''/ws/app'' loaded_linux
                 @ ''/CMakeCache.txt'')
            \<longrightarrow> isdir (fsys built_world)
              (build_dir_of (demo_env [] [] (\<lambda>d. True) (\<lambda>d. True)) ''/ws/fips'' ''/ws/app'' loaded_linux)"
    by (simp add: demo_build_dir built_world_def isdir_def)
  note th = gen_project_freshness [where c = loaded_linux, OF loaded_linux_keys wf]
  have d: "isdir (fsys built_world) ''/ws/fips-build/app/linux-dbg''"
    and m: "isfile (fsys built_world) ''/ws/fips-build/app/linux-dbg/CMakeCache.txt''"
    and t: "gen_calls (trace built_world) = 0"
    by (simp_all add: built_world_def isdir_def isfile_def gen_calls_def)
  from th [of False] th [of True] d m t show ?thesis
    by (simp add: demo_build_dir)
qed

section \<open>The IDE writers\<close>

lemma iml_not_workspace: "pn @ ''.iml'' \<noteq> ''workspace.xml''"
proof
  assume "pn @ ''.iml'' = ''workspace.xml''"
  then have "rev (pn @ ''.iml'') = rev ''workspace.xml''" by (rule arg_cong)
  then show False by simp
qed

lemma idea_paths_distinct:
  "proj_dir @ ''/.idea/'' @ pn @ ''.iml'' \<noteq> proj_dir @ ''/.idea/workspace.xml''"
  "proj_dir @ ''/.idea/workspace.xml'' \<noteq> proj_dir @ ''/.idea/'' @ pn @ ''.iml''"
  using iml_not_workspace [of pn] by auto

lemma workspace_file_kept:
  assumes "path_exists (fsys w) (proj_dir @ ''/.idea/workspace.xml'')"
  shows "files (fsys (snd (write_workspace_settings e fips_dir proj_dir c w))) (proj_dir @ ''/.idea/workspace.xml'')
         = files (fsys w) (proj_dir @ ''/.idea/workspace.xml'')"
  using assms
  by (cases "c ''name''")
     (auto simp: write_workspace_settings_def write_clion_workspace_file_def write_clion_module_files_def
        comp_simps Let_def getitem_def path_exists_def isdir_def isfile_def makedirs_def write_file_def
        idea_paths_distinct)

lemma module_files_kept:
  assumes "path_exists (fsys w)
             (proj_dir @ ''/.idea/'' @ get_project_name_from_dir e proj_dir @ ''.iml'')"
  shows "files (fsys (snd (write_workspace_settings e fips_dir proj_dir c w)))
           (proj_dir @ ''/.idea/'' @ get_project_name_from_dir e proj_dir @ ''.iml'')
         = files (fsys w) (proj_dir @ ''/.idea/'' @ get_project_name_from_dir e proj_dir @ ''.iml'')
       \<and> files (fsys (snd (write_workspace_settings e fips_dir proj_dir c w))) (proj_dir @ ''/.idea/misc.xml'')
         = files (fsys w) (proj_dir @ ''/.idea/misc.xml'')
       \<and> files (fsys (snd (write_workspace_settings e fips_dir proj_dir c w))) (proj_dir @ ''/.idea/modules.xml'')
         = files (fsys w) (proj_dir @ ''/.idea/modules.xml'')"
  using assms
  by (cases "c ''name''")
     (auto simp: write_workspace_settings_def write_clion_workspace_file_def write_clion_module_files_def
        comp_simps Let_def getitem_def path_exists_def isdir_def isfile_def makedirs_def write_file_def
        idea_paths_distinct)

lemma workspace_file_written:
  assumes "c ''name'' = Some name" and "\<not> path_exists (fsys w) (proj_dir @ ''/.idea/workspace.xml'')"
    and "isdir (fsys w) (proj_dir @ ''/.idea'')"
  shows "isfile (fsys (snd (write_workspace_settings e fips_dir proj_dir c w))) (proj_dir @ ''/.idea/workspace.xml'')"
  using assms
  by (auto simp: write_workspace_settings_def write_clion_workspace_file_def write_clion_module_files_def
        comp_simps Let_def path_exists_def isdir_def isfile_def makedirs_def write_file_def
        idea_paths_distinct)

lemma misc_file_overwritten:
  assumes "c ''name'' = Some name"
    and "\<not> path_exists (fsys w) (proj_dir @ ''/.idea/'' @ get_project_name_from_dir e proj_dir @ ''.iml'')"
    and "isdir (fsys w) (proj_dir @ ''/.idea'')"
  shows "files (fsys (snd (write_workspace_settings e fips_dir proj_dir c w))) (proj_dir @ ''/.idea/misc.xml'')
         = Some misc_text"
  using assms
  by (auto simp: write_workspace_settings_def write_clion_workspace_file_def write_clion_module_files_def
        comp_simps Let_def path_exists_def isdir_def isfile_def write_file_def)

lemma run_generate_clion:
  assumes "c ''name'' = Some name" and "c ''path'' = Some path" and "c ''platform'' = Some plat"
    and "c ''build_tool'' = Some (PStr ''clion'')"
    and "fst (cmake_run_gen e c fips_dir proj_dir build_dir
                (resolved_toolchain e fips_dir proj_dir c (fsys w)) defs (fsys w)) = Inr r"
  shows "snd (run_generate e fips_dir proj_dir c build_dir defs w) =
     snd (write_workspace_settings e fips_dir proj_dir c
       \<lparr>fsys = snd (cmake_run_gen e c fips_dir proj_dir build_dir
                      (resolved_toolchain e fips_dir proj_dir c (fsys w)) defs (fsys w)),
        trace = trace w
         @ [Print (YELLOW @ ''=== generating: '' @ py_str name @ DEF),
            Print (''config file: '' @ py_str path)]
         @ (if resolved_toolchain e fips_dir proj_dir c (fsys w) \<noteq> None
               \<and> resolved_toolchain e fips_dir proj_dir c (fsys w) \<noteq> Some []
            then [Print (''Using Toolchain File: ''
                           @ the (resolved_toolchain e fips_dir proj_dir c (fsys w)))] else [])
         @ [Cmake_run_gen c fips_dir proj_dir build_dir
              (resolved_toolchain e fips_dir proj_dir c (fsys w)) defs]\<rparr>)"
proof -
  define tp where "tp = resolved_toolchain e fips_dir proj_dir c (fsys w)"
  define g where "g = cmake_run_gen e c fips_dir proj_dir build_dir tp defs"
  have gt: "get_toolchain e fips_dir proj_dir c w' = (Inr tp, w')" if "fsys w' = fsys w" for w'
    using get_toolchain_resolved [where c = c, OF assms(3)] that by (simp add: tp_def)
  have r: "fst (g (fsys w)) = Inr r" using assms(5) by (simp add: tp_def g_def)
  have "snd (run_generate e fips_dir proj_dir c build_dir defs w) =
     snd (write_workspace_settings e fips_dir proj_dir c
       \<lparr>fsys = snd (g (fsys w)),
        trace = trace w
         @ [Print (YELLOW @ ''=== generating: '' @ py_str name @ DEF),
            Print (''config file: '' @ py_str path)]
         @ (if tp \<noteq> None \<and> tp \<noteq> Some [] then [Print (''Using Toolchain File: '' @ the tp)] else [])
         @ [Cmake_run_gen c fips_dir proj_dir build_dir tp defs]\<rparr>)"
    using assms(1-4) r
    by (simp add: run_generate_def comp_simps gt g_def [symmetric]
          write_workspace_settings_ok [where c = c, OF assms(1)])
  then show ?thesis by (simp add: tp_def g_def)
qed

lemma loaded_clion_keys:
  "loaded_clion ''name'' = Some (PStr ''linux-clion'')"
  "loaded_clion ''generator'' = Some (PStr ''Default'')"
  "loaded_clion ''platform'' = Some (PStr ''linux'')"
  "loaded_clion ''path'' = Some (PStr ''/ws/fips/configs/linux-clion.yml'')"
  "loaded_clion ''build_tool'' = Some (PStr ''clion'')"
  by (simp_all add: loaded_clion_def patch_cfg_def set_default_def Let_def name_of_path_def
        path_split_def splitext_def is_slash_def is_dot_def)

lemma demo_project_name: "get_project_name_from_dir (demo_env g y a b) ''/ws/app'' = ''app''"
  by (simp add: demo_env_def path_split_def is_slash_def)

lemma demo_build_dir_clion:
  "build_dir_of (demo_env g y a b) ''/ws/fips'' ''/ws/app'' loaded_clion = ''/ws/fips-build/app/linux-clion''"
  by (simp add: build_dir_of_def demo_project_name loaded_clion_keys) (simp add: demo_env_def)

text \<open>
  C8, as the code has it: when \<^verbatim>\<open>gen_project\<close> generates, the writer for
  \<^verbatim>\<open>vscode_cmake\<close> or for \<^verbatim>\<open>clion\<close> runs right after the call of cmake's generate step
  has returned, chosen by the config's \<^verbatim>\<open>build_tool\<close>, whatever value that call
  returned (after an exception of the call nothing runs); the value of the call is
  what \<^verbatim>\<open>gen_project\<close> returns. The CLion writer leaves an existing \<^verbatim>\<open>workspace.xml\<close> as
  it is, and leaves the \<^verbatim>\<open>.iml\<close> file, \<^verbatim>\<open>misc.xml\<close> and \<^verbatim>\<open>modules.xml\<close> as they are when
  the \<^verbatim>\<open>.iml\<close> file exists.
\<close>

theorem ide_writers_follow_generate:
  assumes "c ''name'' = Some name" and "c ''generator'' = Some generator" and "c ''platform'' = Some plat"
    and "c ''path'' = Some path" and "c ''build_tool'' = Some bt"
    and "force \<or> \<not> isfile (fsys w) (build_dir_of e fips_dir proj_dir c @ ''/CMakeCache.txt'')"
  shows "fst (gen_project e fips_dir proj_dir c force w) = generate_outcome e fips_dir proj_dir c (fsys w)
       \<and> trace (snd (gen_project e fips_dir proj_dir c force w)) =
           trace w
           @ [Print (YELLOW @ ''=== generating: '' @ py_str name @ DEF),
              Print (''config file: '' @ py_str path)]
           @ (if resolved_toolchain e fips_dir proj_dir c (with_build_dir e fips_dir proj_dir c (fsys w)) \<noteq> None
                 \<and> resolved_toolchain e fips_dir proj_dir c (with_build_dir e fips_dir proj_dir c (fsys w)) \<noteq> Some []
              then [Print (''Using Toolchain File: ''
                     @ the (resolved_toolchain e fips_dir proj_dir c (with_build_dir e fips_dir proj_dir c (fsys w))))]
              else [])
           @ (if bt = PStr ''ninja'' then [Ninja_prepare fips_dir (build_dir_of e fips_dir proj_dir c)] else [])
           @ [Cmake_run_gen c fips_dir proj_dir (build_dir_of e fips_dir proj_dir c)
                (resolved_toolchain e fips_dir proj_dir c (with_build_dir e fips_dir proj_dir c (fsys w)))
                (gen_defines e proj_dir generator plat (fsys w))]
           @ (if isl (generate_outcome e fips_dir proj_dir c (fsys w)) then []
              else (if bt = PStr ''vscode_cmake'' then [Vscode_write fips_dir proj_dir c] else [])
                 @ (if bt = PStr ''clion'' then [Print ''=== writing JetBrains CLion config files...''] else []))
       \<and> (path_exists (fsys w) (proj_dir @ ''/.idea/workspace.xml'') \<longrightarrow>
            files (fsys (snd (write_workspace_settings e fips_dir proj_dir c w))) (proj_dir @ ''/.idea/workspace.xml'')
            = files (fsys w) (proj_dir @ ''/.idea/workspace.xml''))
       \<and> (path_exists (fsys w) (proj_dir @ ''/.idea/'' @ get_project_name_from_dir e proj_dir @ ''.iml'') \<longrightarrow>
            files (fsys (snd (write_workspace_settings e fips_dir proj_dir c w)))
              (proj_dir @ ''/.idea/'' @ get_project_name_from_dir e proj_dir @ ''.iml'')
            = files (fsys w) (proj_dir @ ''/.idea/'' @ get_project_name_from_dir e proj_dir @ ''.iml'')
          \<and> files (fsys (snd (write_workspace_settings e fips_dir proj_dir c w))) (proj_dir @ ''/.idea/misc.xml'')
            = files (fsys w) (proj_dir @ ''/.idea/misc.xml'')
          \<and> files (fsys (snd (write_workspace_settings e fips_dir proj_dir c w))) (proj_dir @ ''/.idea/modules.xml'')
            = files (fsys w) (proj_dir @ ''/.idea/modules.xml''))"
proof -
  define w1 where "w1 = (if \<not> isdir (fsys w) (build_dir_of e fips_dir proj_dir c)
                         then w\<lparr>fsys := makedirs (build_dir_of e fips_dir proj_dir c) (fsys w)\<rparr> else w)"
  have w1: "fsys w1 = with_build_dir e fips_dir proj_dir c (fsys w)" "trace w1 = trace w"
    by (simp_all add: w1_def with_build_dir_def)
  have g: "gen_project e fips_dir proj_dir c force w =
             run_generate e fips_dir proj_dir c (build_dir_of e fips_dir proj_dir c)
               (gen_defines e proj_dir generator plat (fsys w)) w1"
    unfolding w1_def by (rule gen_project_generate [where c = c, OF assms(1-3,6)])
  have o: "generate_outcome e fips_dir proj_dir c (fsys w) =
             fst (cmake_run_gen e c fips_dir proj_dir (build_dir_of e fips_dir proj_dir c)
                    (resolved_toolchain e fips_dir proj_dir c (fsys w1))
                    (gen_defines e proj_dir generator plat (fsys w))
                    (if bt = PStr ''ninja''
                     then ninja_prepare e fips_dir (build_dir_of e fips_dir proj_dir c) (fsys w1)
                     else fsys w1))"
    using assms(2,3,5) by (simp add: generate_outcome_def w1)
  note t = run_generate_trace [where c = c and w = w1 and e = e and fips_dir = fips_dir
      and proj_dir = proj_dir and build_dir = "build_dir_of e fips_dir proj_dir c"
      and defs = "gen_defines e proj_dir generator plat (fsys w)", OF assms(1,4,3,5), folded o]
  have "fst (gen_project e fips_dir proj_dir c force w) = generate_outcome e fips_dir proj_dir c (fsys w)"
    unfolding g using t by simp
  moreover have "trace (snd (gen_project e fips_dir proj_dir c force w)) =
           trace w
           @ [Print (YELLOW @ ''=== generating: '' @ py_str name @ DEF),
              Print (''config file: '' @ py_str path)]
           @ (if resolved_toolchain e fips_dir proj_dir c (with_build_dir e fips_dir proj_dir c (fsys w)) \<noteq> None
                 \<and> resolved_toolchain e fips_dir proj_dir c (with_build_dir e fips_dir proj_dir c (fsys w)) \<noteq> Some []
              then [Print (''Using Toolchain File: ''
                     @ the (resolved_toolchain e fips_dir proj_dir c (with_build_dir e fips_dir proj_dir c (fsys w))))]
              else [])
           @ (if bt = PStr ''ninja'' then [Ninja_prepare fips_dir (build_dir_of e fips_dir proj_dir c)] else [])
           @ [Cmake_run_gen c fips_dir proj_dir (build_dir_of e fips_dir proj_dir c)
                (resolved_toolchain e fips_dir proj_dir c (with_build_dir e fips_dir proj_dir c (fsys w)))
                (gen_defines e proj_dir generator plat (fsys w))]
           @ (if isl (generate_outcome e fips_dir proj_dir c (fsys w)) then []
              else (if bt = PStr ''vscode_cmake'' then [Vscode_write fips_dir proj_dir c] else [])
                 @ (if bt = PStr ''clion'' then [Print ''=== writing JetBrains CLion config files...''] else []))"
    unfolding g using t by (simp only: w1)
  ultimately show ?thesis
    using workspace_file_kept [of w proj_dir e fips_dir c] module_files_kept [of w proj_dir e fips_dir c]
    by blast
qed

theorem ide_writers_follow_generate_witness:
  "trace (snd (gen_project (demo_env [] [] (\<lambda>d. True) (\<lambda>d. True)) ''/ws/fips'' ''/ws/app'' loaded_clion True
                 kept_world))
     = [Print (YELLOW @ ''=== generating: linux-clion'' @ DEF),
        Print ''config file: /ws/fips/configs/linux-clion.yml'',
        Cmake_run_gen loaded_clion ''/ws/fips'' ''/ws/app'' ''/ws/fips-build/app/linux-clion'' None
          (gen_defines (demo_env [] [] (\<lambda>d. True) (\<lambda>d. True)) ''/ws/app'' (PStr ''Default'') (PStr ''linux'')
             (fsys kept_world)),
        Print ''=== writing JetBrains CLion config files...'']
   \<and> files (fsys (snd (write_workspace_settings (demo_env [] [] (\<lambda>d. True) (\<lambda>d. True)) ''/ws/fips'' ''/ws/app''
                          loaded_clion kept_world))) ''/ws/app/.idea/workspace.xml''
       = Some ''<project version=5/>''
   \<and> files (fsys (snd (write_workspace_settings (demo_env [] [] (\<lambda>d. True) (\<lambda>d. True)) ''/ws/fips'' ''/ws/app''
                          loaded_clion kept_world))) ''/ws/app/.idea/app.iml''
       = Some ''<module/>''
   \<and> files (fsys (snd (write_workspace_settings (demo_env [] [] (\<lambda>d. True) (\<lambda>d. True)) ''/ws/fips'' ''/ws/app''
                          loaded_clion kept_world))) ''/ws/app/.idea/misc.xml''
       = Some ''<project/>''"
proof -
  let ?e = "demo_env [] [] (\<lambda>d. True) (\<lambda>d. True)"
  have do: "True \<or> \<not> isfile (fsys kept_world)
              (build_dir_of ?e ''/ws/fips'' ''/ws/app'' loaded_clion @ ''/CMakeCache.txt'')" by simp
  have rt: "resolved_toolchain ?e ''/ws/fips'' ''/ws/app'' loaded_clion f = None" for f
    by (simp add: resolved_toolchain_def loaded_clion_keys native_platforms_def)
  have go: "generate_outcome ?e ''/ws/fips'' ''/ws/app'' loaded_clion f = Inr True" for f
    by (simp add: generate_outcome_def demo_env_def)
  have ex: "path_exists (fsys kept_world) ''/ws/app/.idea/workspace.xml''"
    "path_exists (fsys kept_world) ''/ws/app/.idea/app.iml''"
    by (simp_all add: path_exists_def isfile_def kept_world_def)
  have fl: "files (fsys kept_world) ''/ws/app/.idea/workspace.xml'' = Some ''<project version=5/>''"
    "files (fsys kept_world) ''/ws/app/.idea/app.iml'' = Some ''<module/>''"
    "files (fsys kept_world) ''/ws/app/.idea/misc.xml'' = Some ''<project/>''"
    "trace kept_world = []"
    by (simp_all add: kept_world_def)
  from ide_writers_follow_generate [where c = loaded_clion and e = ?e and fips_dir = "''/ws/fips''"
      and proj_dir = "''/ws/app''" and force = True and w = kept_world, OF loaded_clion_keys do]
  show ?thesis
    by (simp add: rt go ex fl demo_build_dir_clion demo_project_name)
qed


text \<open>
  C8 as stated fails: with a cmake run that returns \<^verbatim>\<open>False\<close> the CLion writer still
  runs and creates \<^verbatim>\<open>workspace.xml\<close>, and, the \<^verbatim>\<open>.iml\<close> file being absent, it replaces
  the \<^verbatim>\<open>misc.xml\<close> that was there.
\<close>

theorem ide_writers_counterexample:
  "fst (gen_project (demo_env [] [] (\<lambda>d. False) (\<lambda>d. True)) ''/ws/fips'' ''/ws/app'' loaded_clion True idea_world)
     = Inr False
   \<and> \<not> isfile (fsys idea_world) ''/ws/app/.idea/workspace.xml''
   \<and> isfile (fsys (snd (gen_project (demo_env [] [] (\<lambda>d. False) (\<lambda>d. True)) ''/ws/fips'' ''/ws/app''
                          loaded_clion True idea_world))) ''/ws/app/.idea/workspace.xml''
   \<and> files (fsys idea_world) ''/ws/app/.idea/misc.xml'' = Some ''<project version=5/>''
   \<and> files (fsys (snd (gen_project (demo_env [] [] (\<lambda>d. False) (\<lambda>d. True)) ''/ws/fips'' ''/ws/app''
                          loaded_clion True idea_world))) ''/ws/app/.idea/misc.xml'' = Some misc_text
   \<and> misc_text \<noteq> ''<project version=5/>''"
proof -
  let ?e = "demo_env [] [] (\<lambda>d. False) (\<lambda>d. True)"
  let ?defs = "gen_defines ?e ''/ws/app'' (PStr ''Default'') (PStr ''linux'') (fsys idea_world)"
  let ?w = "\<lparr>fsys = fsys idea_world,
            trace = [Print (YELLOW @ ''=== generating: '' @ ''linux-clion'' @ DEF),
                     Print (''config file: '' @ ''/ws/fips/configs/linux-clion.yml''),
                     Cmake_run_gen loaded_clion ''/ws/fips'' ''/ws/app'' ''/ws/fips-build/app/linux-clion''
                       None ?defs]\<rparr>"
  have bd: "isdir (fsys idea_world) ''/ws/fips-build/app/linux-clion''"
    by (simp add: idea_world_def isdir_def)
  have gp: "gen_project ?e ''/ws/fips'' ''/ws/app'' loaded_clion True idea_world
            = run_generate ?e ''/ws/fips'' ''/ws/app'' loaded_clion ''/ws/fips-build/app/linux-clion'' ?defs idea_world"
    using gen_project_generate [where c = loaded_clion and e = ?e and fips_dir = "''/ws/fips''"
        and proj_dir = "''/ws/app''" and force = True and w = idea_world, OF loaded_clion_keys(1-3)] bd
    by (simp add: demo_build_dir_clion)
  have rt: "resolved_toolchain ?e ''/ws/fips'' ''/ws/app'' loaded_clion f = None" for f
    by (simp add: resolved_toolchain_def loaded_clion_keys native_platforms_def)
  have cg: "cmake_run_gen ?e c fd pd bdir tp defs f = (Inr False, f)" for c fd pd bdir tp defs f
    by (simp add: demo_env_def)
  have r: "fst (run_generate ?e ''/ws/fips'' ''/ws/app'' loaded_clion ''/ws/fips-build/app/linux-clion'' ?defs idea_world)
           = Inr False"
    using run_generate_trace [where c = loaded_clion and e = ?e and fips_dir = "''/ws/fips''"
        and proj_dir = "''/ws/app''" and build_dir = "''/ws/fips-build/app/linux-clion''"
        and defs = ?defs and w = idea_world, OF loaded_clion_keys(1,4,3,5), THEN conjunct1]
    by (simp add: cg)
  have s: "snd (run_generate ?e ''/ws/fips'' ''/ws/app'' loaded_clion ''/ws/fips-build/app/linux-clion'' ?defs idea_world)
           = snd (write_workspace_settings ?e ''/ws/fips'' ''/ws/app'' loaded_clion ?w)"
    using run_generate_clion [where c = loaded_clion and e = ?e and fips_dir = "''/ws/fips''"
        and proj_dir = "''/ws/app''" and build_dir = "''/ws/fips-build/app/linux-clion''"
        and defs = ?defs and w = idea_world and r = False, OF loaded_clion_keys(1,4,3,5)]
    by (simp add: cg rt idea_world_def)
  have nows: "\<not> path_exists (fsys ?w) (''/ws/app'' @ ''/.idea/workspace.xml'')"
    by (simp add: path_exists_def isdir_def isfile_def idea_world_def)
  have noiml: "\<not> path_exists (fsys ?w)
                 (''/ws/app'' @ ''/.idea/'' @ get_project_name_from_dir ?e ''/ws/app'' @ ''.iml'')"
    by (simp add: demo_project_name path_exists_def isdir_def isfile_def idea_world_def)
  have idea: "isdir (fsys ?w) (''/ws/app'' @ ''/.idea'')"
    by (simp add: isdir_def idea_world_def)
  have a: "isfile (fsys (snd (write_workspace_settings ?e ''/ws/fips'' ''/ws/app'' loaded_clion ?w)))
             ''/ws/app/.idea/workspace.xml''"
    using workspace_file_written [where c = loaded_clion, OF loaded_clion_keys(1) nows idea] by simp
  have b: "files (fsys (snd (write_workspace_settings ?e ''/ws/fips'' ''/ws/app'' loaded_clion ?w)))
             ''/ws/app/.idea/misc.xml'' = Some misc_text"
    using misc_file_overwritten [where c = loaded_clion, OF loaded_clion_keys(1) noiml idea] by simp
  have c: "\<not> isfile (fsys idea_world) ''/ws/app/.idea/workspace.xml''"
    "files (fsys idea_world) ''/ws/app/.idea/misc.xml'' = Some ''<project version=5/>''"
    by (simp_all add: isfile_def idea_world_def)
  have m: "misc_text \<noteq> ''<project version=5/>''"
    by (simp add: misc_text_def)
  show ?thesis
    unfolding gp s r using a b c m by simp
qed

section \<open>Cleaning\<close>

lemma load_path_named:
  assumes "\<forall>c\<in>set acc. c ''name'' \<noteq> None" and "load_path e p acc w = (Inr cfgs, w')"
  shows "\<forall>c\<in>set cfgs. c ''name'' \<noteq> None"
  using assms
  by (auto simp: load_path_def error_def Let_def patch_cfg_name
        split: yaml_result.splits option.splits sum.splits bool.splits if_splits)

lemma load_paths_named:
  assumes "\<forall>c\<in>set acc. c ''name'' \<noteq> None" and "load_paths e ps acc w = (Inr cfgs, w')"
  shows "\<forall>c\<in>set cfgs. c ''name'' \<noteq> None"
  using assms
proof (induction ps arbitrary: acc w)
  case Nil then show ?case by simp
next
  case (Cons p ps)
  obtain r1 w1 where l: "load_path e p acc w = (r1, w1)" by (cases "load_path e p acc w")
  show ?case
  proof (cases r1)
    case (Inl x) with Cons.prems l show ?thesis by simp
  next
    case (Inr acc')
    with l Cons.prems(1) have "\<forall>c\<in>set acc'. c ''name'' \<noteq> None"
      using load_path_named by blast
    moreover from Inr l Cons.prems(2) have "load_paths e ps acc' w1 = (Inr cfgs, w')" by simp
    ultimately show ?thesis by (rule Cons.IH)
  qed
qed

lemma load_named:
  assumes "load e fips_dir proj_dir pattern w = (Inr cfgs, w')"
  shows "\<forall>c\<in>set cfgs. c ''name'' \<noteq> None"
proof -
  obtain ds w1 where d: "get_config_dirs e fips_dir proj_dir w = (ds, w1)"
    by (cases "get_config_dirs e fips_dir proj_dir w")
  with assms have "load_paths e (matched_paths e pattern ds (fsys w1)) [] w1 = (Inr cfgs, w')"
    by (simp add: load_def load_dirs_paths)
  then show ?thesis using load_paths_named [of "[]"] by simp
qed

lemma load_fsys:
  assumes "load e fips_dir proj_dir pattern w = (r, w')"
  shows "fsys w' = fsys w"
proof -
  obtain ds w1 where d: "get_config_dirs e fips_dir proj_dir w = (ds, w1)"
    by (cases "get_config_dirs e fips_dir proj_dir w")
  then have f1: "fsys w1 = fsys w" by (rule get_config_dirs_fsys)
  from d assms have "load_paths e (matched_paths e pattern ds (fsys w1)) [] w1 = (r, w')"
    by (simp add: load_def load_dirs_paths)
  then have "fsys w' = fsys w1" by (rule load_paths_fsys)
  with f1 show ?thesis by simp
qed

lemma clean_loop_nothing:
  assumes "\<forall>c\<in>set cfgs. c ''name'' \<noteq> None"
    and "list_all (\<lambda>c. \<not> isdir (fsys w) (get_build_dir e fips_dir proj_name (py_str (the (c ''name''))))
                       \<and> \<not> isdir (fsys w) (get_deploy_dir e fips_dir proj_name (py_str (the (c ''name'')))))
           cfgs"
  shows "clean_loop e fips_dir proj_name cfgs n w = (Inr n, w)"
  using assms
  by (induction cfgs) (auto simp: comp_simps Let_def)

text \<open>
  C9: when the pattern matches configs and none of them has a build directory or a
  deployment directory, \<^verbatim>\<open>clean\<close> prints the line ``nothing to clean'' and returns
  normally: no error line, no exit, nothing removed. (The Python function returns
  \<^verbatim>\<open>None\<close> on every path that returns; the model's value is the unit.)
\<close>

theorem clean_nothing_to_clean:
  assumes "load e fips_dir proj_dir cfg_name w = (Inr configs, w')" and "configs \<noteq> []"
    and "list_all (\<lambda>c. \<not> isdir (fsys w') (get_build_dir e fips_dir (get_project_name_from_dir e proj_dir)
                                               (py_str (the (c ''name''))))
                       \<and> \<not> isdir (fsys w') (get_deploy_dir e fips_dir (get_project_name_from_dir e proj_dir)
                                               (py_str (the (c ''name'')))))
           configs"
  shows "clean e fips_dir proj_dir cfg_name w
           = (Inr (), colored YELLOW (''=== clean: nothing to clean for '' @ cfg_name) w')"
proof -
  have named: "\<forall>c\<in>set configs. c ''name'' \<noteq> None" using assms(1) by (rule load_named)
  have "clean_loop e fips_dir (get_project_name_from_dir e proj_dir) configs 0 w' = (Inr 0, w')"
    using named assms(3) by (rule clean_loop_nothing)
  with assms(1,2) show ?thesis
    by (simp add: clean_def and_then_def act_def)
qed

theorem clean_nothing_to_clean_witness:
  "fst (clean two_layers ''/ws/fips'' ''/ws/app'' ''linux-*'' demo_world) = Inr ()
   \<and> trace (snd (clean two_layers ''/ws/fips'' ''/ws/app'' ''linux-*'' demo_world))
       = [Print (YELLOW @ ''=== clean: nothing to clean for linux-*'' @ DEF)]
   \<and> fsys (snd (clean two_layers ''/ws/fips'' ''/ws/app'' ''linux-*'' demo_world)) = fsys demo_world"
proof -
  let ?l = "load two_layers ''/ws/fips'' ''/ws/app'' ''linux-*'' demo_world"
  have "\<not> isl (fst ?l)" by code_simp
  then have l: "?l = (Inr (projr (fst ?l)), snd ?l)"
    by (cases ?l) (auto simp: isl_def)
  have ne: "projr (fst ?l) \<noteq> []" by code_simp
  have nd: "list_all (\<lambda>c. \<not> isdir (fsys (snd ?l)) (get_build_dir two_layers ''/ws/fips''
                               (get_project_name_from_dir two_layers ''/ws/app'') (py_str (the (c ''name''))))
                       \<and> \<not> isdir (fsys (snd ?l)) (get_deploy_dir two_layers ''/ws/fips''
                               (get_project_name_from_dir two_layers ''/ws/app'') (py_str (the (c ''name'')))))
           (projr (fst ?l))" by code_simp
  have t: "trace (snd ?l) = []" by code_simp
  have f: "fsys (snd ?l) = fsys demo_world"
    using load_fsys [of two_layers "''/ws/fips''" "''/ws/app''" "''linux-*''" demo_world "fst ?l" "snd ?l"]
    by simp
  from clean_nothing_to_clean [OF l ne nd] t f show ?thesis
    by (simp add: colored_def emit_def)
qed

section \<open>Building\<close>

lemma and_then_InrE:
  assumes "and_then m k w = (Inr b, w')"
  obtains a w1 where "m w = (Inr a, w1)" and "k a w1 = (Inr b, w')"
  using assms by (auto simp: and_then_def split: prod.splits sum.splits)

lemma error_fatal: "error msg True w \<noteq> (Inr u, w')"
  by (simp add: error_def Let_def)

lemma build_config_counted:
  assumes "build_config e fips_dir proj_dir target c w = (Inr b, w')"
  shows "b"
  using assms unfolding build_config_def
  by (auto elim!: and_then_InrE simp: ret_def error_fatal split: if_splits)

lemma build_loop_counts_all:
  assumes "build_loop e fips_dir proj_dir target cs n w = (Inr n', w')"
  shows "n' = n + length cs"
  using assms
proof (induction cs arbitrary: n w)
  case Nil then show ?case by (simp add: ret_def)
next
  case (Cons c cs)
  from Cons.prems obtain b w1 where
    b: "build_config e fips_dir proj_dir target c w = (Inr b, w1)"
    and r: "build_loop e fips_dir proj_dir target cs (if b then n + 1 else n) w1 = (Inr n', w')"
    by (auto elim!: and_then_InrE)
  from b have b by (rule build_config_counted)
  with r Cons.IH show ?case by fastforce
qed

lemma build_returns_only_True:
  assumes "build e fips_dir proj_dir cfg_name target w = (Inr b, w')"
  shows "b"
  using assms unfolding build_def
  by (auto elim!: and_then_InrE simp: ret_def error_fatal split: if_splits)


text \<open>
  C1: the claim says that \<^verbatim>\<open>build\<close> goes through all matched configs, counts the ones
  that fail validation or the build step, prints ``2 out of 3 configs failed'' and
  returns \<^verbatim>\<open>False\<close>. With three matched configs of which the second is not valid and the
  third does not build, the run ends with \<^verbatim>\<open>sys.exit(10)\<close> at the second config: the
  per-config \<^verbatim>\<open>log.error\<close> is fatal. The third config is never looked at and no tally
  line is printed.
\<close>

theorem build_exits_at_first_failure:
  "map (\<lambda>c. (c ''name'', c ''build_tool''))
     (projr (fst (load three_configs ''/ws/fips'' ''/ws/app'' ''linux-*'' demo_world)))
     = [(Some (PStr ''linux-a''), Some (PStr ''make'')), (Some (PStr ''linux-b''), Some (PStr ''scons'')),
        (Some (PStr ''linux-c''), Some (PStr ''make''))]
   \<and> fst (build three_configs ''/ws/fips'' ''/ws/app'' ''linux-*'' None demo_world) = Inl (SystemExit 10)
   \<and> printed (trace (snd (build three_configs ''/ws/fips'' ''/ws/app'' ''linux-*'' None demo_world)))
     = [YELLOW @ ''=== building: linux-a'' @ DEF,
        YELLOW @ ''=== generating: linux-a'' @ DEF,
        ''config file: /ws/fips/configs/linux-a.yml'',
        RED @ ''[ERROR]'' @ DEF @ '' invalid build_tool name '' @ sq @ ''scons'' @ sq @ '' in '' @ sq
          @ ''/ws/fips/configs/linux-b.yml'' @ sq,
        RED @ ''[ERROR]'' @ DEF @ '' build tool '' @ sq @ ''scons'' @ sq @ '' not found'',
        RED @ ''[ERROR]'' @ DEF @ '' Config '' @ sq @ ''linux-b'' @ sq @ '' not valid in this environment'']
   \<and> tool_calls (trace (snd (build three_configs ''/ws/fips'' ''/ws/app'' ''linux-*'' None demo_world)))
     = [(''cmake generate'', ''/ws/fips-build/app/linux-a''), (''make'', ''/ws/fips-build/app/linux-a'')]"
  by code_simp

end
